theory Spec2Isabelle
  imports Main "HOL-Library.AList"
begin

section \<open>JavaScript primitives used by the resolver\<close>

text \<open>
  Numbers that the resolver computes with are integers (pick numbers, roster ids,
  epoch milliseconds); they are modelled as \<open>int\<close>. The one place where the source can
  produce the not-a-number value is the nominal draft timestamp
  \<^verbatim>\<open>new Date(parseInt(season), 5, 1).getTime()\<close>; a record's timestamp is therefore an
  \<open>int option\<close>, with \<open>None\<close> standing for NaN.
\<close>

definition digitChar :: "nat \<Rightarrow> char" where
  "digitChar d = ''0123456789'' ! d"

fun showNat :: "nat \<Rightarrow> string" where
  "showNat n = (if n < 10 then [digitChar n] else showNat (n div 10) @ [digitChar (n mod 10)])"

text \<open>
  \<^verbatim>\<open>Number.prototype.toString\<close> and template interpolation, on integers below
  \<^verbatim>\<open>1e21\<close> (from there on the source prints exponent notation; rounds, slots and bids
  are far smaller).
\<close>

definition numToString :: "int \<Rightarrow> string" where
  "numToString i = (if i < 0 then CHR ''-'' # showNat (nat (- i)) else showNat (nat i))"

text \<open>
  The remainder operator \<^verbatim>\<open>a % b\<close> on integers: the result has the sign of the dividend.
  Its only call site divides by \<^verbatim>\<open>total_rosters || 12\<close>, which is never zero.
\<close>

definition jsRem :: "int \<Rightarrow> int \<Rightarrow> int" where
  "jsRem a b = sgn a * (\<bar>a\<bar> mod \<bar>b\<bar>)"

text \<open>\<^verbatim>\<open>String.prototype.toLowerCase\<close> on the ASCII letters, and \<^verbatim>\<open>includes\<close>.\<close>

definition toLowerCase :: "string \<Rightarrow> string" where
  "toLowerCase s =
     map (\<lambda>c. case map_of (zip ''ABCDEFGHIJKLMNOPQRSTUVWXYZ'' ''abcdefghijklmnopqrstuvwxyz'') c of
                 None \<Rightarrow> c | Some l \<Rightarrow> l) s"

fun startsWith :: "string \<Rightarrow> string \<Rightarrow> bool" where
  "startsWith s [] = True"
| "startsWith [] (p # ps) = False"
| "startsWith (c # cs) (p # ps) = (c = p \<and> startsWith cs ps)"

fun includes_str :: "string \<Rightarrow> string \<Rightarrow> bool" where
  "includes_str [] p = (p = [])"
| "includes_str (c # cs) p = (startsWith (c # cs) p \<or> includes_str cs p)"

text \<open>
  \<^verbatim>\<open>parseInt(s)\<close> without a radix: leading white space is skipped, a sign is read, a
  \<^verbatim>\<open>0x\<close> prefix selects base 16, and the longest prefix of digits is converted; no digit
  at all gives NaN (\<open>None\<close>).
\<close>

definition digitValue :: "char \<Rightarrow> nat option" where
  "digitValue c =
     map_of (zip ''0123456789abcdefABCDEF''
                 [0, 1, 2, 3, 4, 5, 6, 7, 8, 9, 10, 11, 12, 13, 14, 15, 10, 11, 12, 13, 14, 15]) c"

definition isDigitOf :: "nat \<Rightarrow> char \<Rightarrow> bool" where
  "isDigitOf radix c = (case digitValue c of None \<Rightarrow> False | Some v \<Rightarrow> v < radix)"

definition digitsValue :: "nat \<Rightarrow> string \<Rightarrow> nat" where
  "digitsValue radix ds = foldl (\<lambda>a c. a * radix + (case digitValue c of None \<Rightarrow> 0 | Some v \<Rightarrow> v)) 0 ds"

definition isWhiteSpace :: "char \<Rightarrow> bool" where
  "isWhiteSpace c = (c \<in> set [CHR '' '', CHR 0x09, CHR 0x0A, CHR 0x0B, CHR 0x0C, CHR 0x0D])"

definition parseInt :: "string \<Rightarrow> int option" where
  "parseInt s =
     (let t = dropWhile isWhiteSpace s;
          neg = startsWith t ''-'';
          u = (if startsWith t ''-'' \<or> startsWith t ''+'' then tl t else t);
          hex = (startsWith u ''0x'' \<or> startsWith u ''0X'');
          radix = (if hex then 16 else 10);
          ds = takeWhile (isDigitOf radix) (if hex then drop 2 u else u)
      in if ds = [] then None
         else Some (if neg then - int (digitsValue radix ds) else int (digitsValue radix ds)))"

section \<open>Data model (\<^verbatim>\<open>src/lib/types.ts\<close>)\<close>

record SleeperRoster =
  roster_id :: int
  owner_id :: string
  players :: "string list"

record SleeperDraftPick =
  player_id :: string
  picked_by :: string
  pick_round :: int
  pick_no :: int

record LeagueHistory =
  league_id :: string
  previousLeagueId :: "string option"
  season :: string

text \<open>
  The part of \<^verbatim>\<open>SleeperLeague\<close> that the resolver reads: \<^verbatim>\<open>total_rosters\<close> and
  \<^verbatim>\<open>settings?.type\<close>.
\<close>

record LeagueDetails =
  total_rosters :: int
  settings_type :: "int option"

text \<open>
  An acquisition record \<^verbatim>\<open>{ type, details, timestamp }\<close>. The source's type labels are
  the strings \<^verbatim>\<open>Unknown\<close>, \<^verbatim>\<open>Startup Draft\<close>, \<^verbatim>\<open>Rookie Draft\<close>, \<^verbatim>\<open>Trade\<close>,
  \<^verbatim>\<open>Waiver Wire\<close>, \<^verbatim>\<open>Free Agency\<close>, \<^verbatim>\<open>Unknown Transaction\<close> and \<^verbatim>\<open>Previous Owner\<close>.
\<close>

record Acquisition =
  acq_type :: string
  details :: string
  timestamp :: "int option"

type_synonym acquisitions = "string \<rightharpoonup> Acquisition"

text \<open>
  What the resolver takes from the host: the epoch milliseconds of local midnight on
  June 1 of a year (\<^verbatim>\<open>new Date(y, 5, 1).getTime()\<close>, which depends on the time zone and
  is NaN outside the range of \<^verbatim>\<open>Date\<close>), and the \<^verbatim>\<open>en-US\<close> short date of a timestamp.
\<close>

record Host =
  localJune1 :: "int \<Rightarrow> int option"
  toLocaleDateString :: "int \<Rightarrow> string"

section \<open>Draft picks: slot, detail string, timestamp\<close>

text \<open>\<^verbatim>\<open>leagueDetails?.total_rosters || 12\<close>\<close>

definition teamsInLeague :: "LeagueDetails option \<Rightarrow> int" where
  "teamsInLeague leagueDetails =
     (case leagueDetails of
        None \<Rightarrow> 12
      | Some l \<Rightarrow> if total_rosters l = 0 then 12 else total_rosters l)"

definition pickInRound :: "int \<Rightarrow> int \<Rightarrow> int" where
  "pickInRound n teams = (if jsRem n teams = 0 then teams else jsRem n teams)"

definition formattedPickNumber :: "int \<Rightarrow> string" where
  "formattedPickNumber p = (if p < 10 then CHR ''0'' # numToString p else numToString p)"

definition pickDetails :: "string \<Rightarrow> string \<Rightarrow> SleeperDraftPick \<Rightarrow> int \<Rightarrow> string" where
  "pickDetails currentDraftType seasonLabel pick teams =
     (let slot = formattedPickNumber (pickInRound (pick_no pick) teams)
      in if currentDraftType = ''Startup Draft''
         then numToString (pick_round pick) @ ''.'' @ slot
         else seasonLabel @ '' '' @ numToString (pick_round pick) @ ''.'' @ slot)"

text \<open>\<^verbatim>\<open>new Date(parseInt(season), 5, 1).getTime()\<close>\<close>

definition seasonTimestamp :: "Host \<Rightarrow> string \<Rightarrow> int option" where
  "seasonTimestamp host s = (case parseInt s of None \<Rightarrow> None | Some y \<Rightarrow> localJune1 host y)"

text \<open>
  The slot as the specification words it: \<open>((n - 1) mod t) + 1\<close>, zero-padded to two
  digits.
\<close>

definition zeroPad2 :: "string \<Rightarrow> string" where
  "zeroPad2 s = replicate (2 - length s) CHR ''0'' @ s"

definition spec_slot :: "int \<Rightarrow> int \<Rightarrow> string" where
  "spec_slot n t = zeroPad2 (numToString ((n - 1) mod t + 1))"

section \<open>Upstream requests\<close>

text \<open>
  An \<^verbatim>\<open>axios.get\<close> either rejects because the abort signal fired, rejects with another
  error, or resolves with \<^verbatim>\<open>response.data\<close>.
\<close>

datatype 'a Fetched = Cancelled | Failed | Resolved 'a

section \<open>League lineage walker (\<^verbatim>\<open>getLeagueHistory\<close>)\<close>

text \<open>The fields of \<^verbatim>\<open>response.data\<close> that the walker reads; the data may be null.\<close>

record LeagueHistoryData =
  data_season :: string
  previous_league_id :: "string option"

datatype WalkOutcome =
  Completed "LeagueHistory list"
| Aborted "LeagueHistory list"
| Threw "LeagueHistory list" "string option"

text \<open>
  The \<^verbatim>\<open>while\<close> loop of \<^verbatim>\<open>getLeagueHistory\<close>, with its three variables: the league to
  fetch next, the nodes pushed so far (newest first) and the set of visited identifiers.
  A string is falsy when it is absent or empty. \<open>Threw\<close> carries \<^verbatim>\<open>currentLeagueId\<close> as
  the error handler sees it. An abort noticed at the head of the loop or during the
  pause between two requests ends the walk with the nodes pushed so far, exactly as a
  cancelled request does, so \<open>Cancelled\<close> stands for all three.
\<close>

function walkLeagues ::
  "(string \<Rightarrow> LeagueHistoryData option Fetched) \<Rightarrow> string option \<Rightarrow> LeagueHistory list \<Rightarrow>
     string set \<Rightarrow> WalkOutcome" where
  "walkLeagues api currentLeagueId history visitedLeagueIds =
     (case currentLeagueId of
        None \<Rightarrow> Completed history
      | Some cur \<Rightarrow>
          if cur \<noteq> [] \<and> length history < 10 \<and> cur \<notin> visitedLeagueIds
          then (case api cur of
                  Cancelled \<Rightarrow> Aborted history
                | Failed \<Rightarrow> Threw history (Some cur)
                | Resolved None \<Rightarrow> Completed history
                | Resolved (Some d) \<Rightarrow>
                    walkLeagues api (previous_league_id d)
                      (history @ [\<lparr>league_id = cur, previousLeagueId = previous_league_id d,
                                   season = data_season d\<rparr>])
                      (insert cur visitedLeagueIds))
          else Completed history)"
  by pat_completeness auto
termination
  by (relation "measure (\<lambda>(api, cur, history, visited). 10 - length history)") auto

declare walkLeagues.simps [simp del]

definition outcomeHistory :: "WalkOutcome \<Rightarrow> LeagueHistory list" where
  "outcomeHistory outcome =
     (case outcome of Completed h \<Rightarrow> h | Aborted h \<Rightarrow> h | Threw h c \<Rightarrow> h)"

text \<open>
  \<open>retry\<close> is the answer to the second request for the starting league, which the error
  handler makes when the first request of the walk failed.
\<close>

definition getLeagueHistory ::
  "(string \<Rightarrow> LeagueHistoryData option Fetched) \<Rightarrow> LeagueHistoryData option Fetched \<Rightarrow> string \<Rightarrow>
     LeagueHistory list" where
  "getLeagueHistory api retry leagueId =
     (case walkLeagues api (Some leagueId) [] {} of
        Completed history \<Rightarrow> rev history
      | Aborted history \<Rightarrow> rev history
      | Threw history currentLeagueId \<Rightarrow>
          (case (if history = [] \<and> Some leagueId = currentLeagueId
                 then (case retry of
                         Resolved (Some d) \<Rightarrow>
                           Some [\<lparr>league_id = leagueId, previousLeagueId = previous_league_id d,
                                  season = data_season d\<rparr>]
                       | _ \<Rightarrow> None)
                 else None) of
             Some single \<Rightarrow> single
           | None \<Rightarrow>
               if history \<noteq> [] then rev history
               else [\<lparr>league_id = leagueId, previousLeagueId = None, season = []\<rparr>]))"

text \<open>
  Oldest-to-newest order: every node's previous-league pointer names the node just
  before it.
\<close>

fun chained :: "LeagueHistory list \<Rightarrow> bool" where
  "chained (older # newer # rest) =
     (previousLeagueId newer = Some (league_id older) \<and> chained (newer # rest))"
| "chained _ = True"

section \<open>Weekly transaction fetch (\<^verbatim>\<open>getLeagueTransactions\<close>)\<close>

record SleeperTransaction =
  transaction_id :: string
  tx_type :: string
  roster_ids :: "int list"
  adds :: "(string \<times> int) list option"
  created :: int
  waiver_bid :: "int option"

record 'a CacheEntry =
  entry_data :: 'a
  entry_timestamp :: int

definition SESSION_CACHE_EXPIRATION :: int where
  "SESSION_CACHE_EXPIRATION = 60 * 60 * 1000"

text \<open>
  The \<^verbatim>\<open>for\<close> loop over the weeks. Besides the accumulated transactions the model
  returns the weeks it requested, in request order. \<open>aborted w\<close> tells whether the abort
  signal is already set when the loop reaches week \<open>w\<close>. A failed request makes the
  function throw \<^verbatim>\<open>Could not fetch transactions for league ID: ...\<close> (\<open>Inl\<close>); an abort
  returns what was accumulated.
\<close>

function fetchWeeks ::
  "string \<Rightarrow> (nat \<Rightarrow> bool) \<Rightarrow> (nat \<Rightarrow> SleeperTransaction list option Fetched) \<Rightarrow> nat \<Rightarrow>
     SleeperTransaction list \<Rightarrow> nat list \<Rightarrow> nat list \<times> (string + SleeperTransaction list)" where
  "fetchWeeks leagueId aborted api currentWeek allTransactions asked =
     (if currentWeek \<le> 18
      then (if aborted currentWeek then (asked, Inr allTransactions)
            else (case api currentWeek of
                    Cancelled \<Rightarrow> (asked @ [currentWeek], Inr allTransactions)
                  | Failed \<Rightarrow>
                      (asked @ [currentWeek],
                       Inl (''Could not fetch transactions for league ID: '' @ leagueId))
                  | Resolved weeklyTransactions \<Rightarrow>
                      (case weeklyTransactions of
                         Some (t # ts) \<Rightarrow>
                           fetchWeeks leagueId aborted api (currentWeek + 1)
                             (allTransactions @ t # ts) (asked @ [currentWeek])
                       | _ \<Rightarrow>
                           if currentWeek > 4 then (asked @ [currentWeek], Inr allTransactions)
                           else fetchWeeks leagueId aborted api (currentWeek + 1)
                                  allTransactions (asked @ [currentWeek]))))
      else (asked, Inr allTransactions))"
  by pat_completeness auto
termination
  by (relation "measure (\<lambda>(leagueId, aborted, api, currentWeek, allTransactions, asked). 19 - currentWeek)") auto

declare fetchWeeks.simps [simp del]

text \<open>
  A session-cache entry younger than an hour is returned without any request. The
  write of the result into the session cache is left out: nothing below reads it.
\<close>

definition getLeagueTransactions ::
  "SleeperTransaction list CacheEntry option \<Rightarrow> int \<Rightarrow> string \<Rightarrow> (nat \<Rightarrow> bool) \<Rightarrow>
     (nat \<Rightarrow> SleeperTransaction list option Fetched) \<Rightarrow>
     nat list \<times> (string + SleeperTransaction list)" where
  "getLeagueTransactions sessionCachedTransactions now leagueId aborted api =
     (case sessionCachedTransactions of
        Some e \<Rightarrow>
          if now - entry_timestamp e < SESSION_CACHE_EXPIRATION then ([], Inr (entry_data e))
          else fetchWeeks leagueId aborted api 1 [] []
      | None \<Rightarrow> fetchWeeks leagueId aborted api 1 [] [])"

definition weeklyList :: "(nat \<Rightarrow> SleeperTransaction list option Fetched) \<Rightarrow> nat \<Rightarrow> SleeperTransaction list" where
  "weeklyList api w = (case api w of Resolved (Some ts) \<Rightarrow> ts | _ \<Rightarrow> [])"

definition emptyWeek :: "(nat \<Rightarrow> SleeperTransaction list option Fetched) \<Rightarrow> nat \<Rightarrow> bool" where
  "emptyWeek api w = (weeklyList api w = [])"

text \<open>The last week requested when every request resolves: the first empty week after week 4, else 18.\<close>

definition stopWeek :: "(nat \<Rightarrow> SleeperTransaction list option Fetched) \<Rightarrow> nat" where
  "stopWeek api = (case find (emptyWeek api) [5..<19] of None \<Rightarrow> 18 | Some w \<Rightarrow> w)"

text \<open>The same for a loop that has already reached week \<open>w\<close>.\<close>

definition stopFrom :: "(nat \<Rightarrow> SleeperTransaction list option Fetched) \<Rightarrow> nat \<Rightarrow> nat" where
  "stopFrom api w = (case find (emptyWeek api) [max w 5..<19] of None \<Rightarrow> 18 | Some k \<Rightarrow> k)"

text \<open>
  The early-termination rule as the specification words it: the fetch stops before
  week 18 only after several (at least two) consecutive weeks past week 4 came back
  empty.
\<close>

definition spec_stops_after_several_empty ::
  "(nat \<Rightarrow> SleeperTransaction list option Fetched) \<Rightarrow> nat list \<Rightarrow> bool" where
  "spec_stops_after_several_empty api asked =
     (asked = [1..<19] \<or>
      (2 \<le> length asked \<and>
       list_all (\<lambda>w. 4 < w \<and> emptyWeek api w) (drop (length asked - 2) asked)))"

section \<open>Season data aggregation\<close>

record DraftInfo =
  draft_id :: string
  draft_type :: "string option"

record DraftWithPicks =
  draftInfo :: DraftInfo
  picks :: "SleeperDraftPick list"

record PlayerAcquisitionData =
  data_leagueId :: string
  data_seasonLabel :: string
  data_roster :: "SleeperRoster option"
  data_drafts :: "DraftWithPicks list"
  data_transactions :: "SleeperTransaction list"

text \<open>
  The answers of the four accessors that the aggregator awaits for one league:
  \<^verbatim>\<open>getUserRoster\<close> (null on failure), and \<^verbatim>\<open>getLeagueDrafts\<close>, \<^verbatim>\<open>getDraftPicks\<close>,
  \<^verbatim>\<open>getLeagueTransactions\<close>, each of which returns a list or throws an error message
  (\<open>Inl\<close>).
\<close>

record Upstream =
  userRosters :: "string \<Rightarrow> SleeperRoster list option"
  leagueDrafts :: "string \<Rightarrow> string + DraftInfo list"
  draftPicks :: "string \<Rightarrow> string + SleeperDraftPick list"
  leagueTransactions :: "string \<Rightarrow> string + SleeperTransaction list"

text \<open>\<^verbatim>\<open>Promise.all\<close> over the drafts: one failing \<^verbatim>\<open>getDraftPicks\<close> fails the whole season.\<close>

fun attachPicks :: "Upstream \<Rightarrow> DraftInfo list \<Rightarrow> DraftWithPicks list option" where
  "attachPicks up [] = Some []"
| "attachPicks up (d # ds) =
     (case draftPicks up (draft_id d) of
        Inl err \<Rightarrow> None
      | Inr ps \<Rightarrow>
          (case attachPicks up ds of
             None \<Rightarrow> None
           | Some rest \<Rightarrow> Some (\<lparr>draftInfo = d, picks = ps\<rparr> # rest)))"

text \<open>
  One element of \<^verbatim>\<open>historicalDataPromises\<close> when the signal is not aborted: the season's
  data, or \<open>None\<close> (the source's null) when a fetch of that season threw.
\<close>

definition fetchSeasonData :: "Upstream \<Rightarrow> string \<Rightarrow> LeagueHistory \<Rightarrow> PlayerAcquisitionData option" where
  "fetchSeasonData up userId histSeason =
     (let userRosterThisSeason =
            (case userRosters up (league_id histSeason) of
               None \<Rightarrow> None
             | Some seasonRosters \<Rightarrow> find (\<lambda>r. owner_id r = userId) seasonRosters)
      in case leagueDrafts up (league_id histSeason) of
           Inl err \<Rightarrow> None
         | Inr seasonDraftsFromApi \<Rightarrow>
             (case attachPicks up seasonDraftsFromApi of
                None \<Rightarrow> None
              | Some seasonDraftsWithPicks \<Rightarrow>
                  (case leagueTransactions up (league_id histSeason) of
                     Inl err \<Rightarrow> None
                   | Inr seasonTransactions \<Rightarrow>
                       Some \<lparr>data_leagueId = league_id histSeason,
                             data_seasonLabel = season histSeason,
                             data_roster = userRosterThisSeason,
                             data_drafts = seasonDraftsWithPicks,
                             data_transactions = seasonTransactions\<rparr>)))"

text \<open>\<^verbatim>\<open>allHistoricalSeasonData\<close>: the seasons whose fetch did not fail, in lineage order.\<close>

definition allHistoricalSeasonData ::
  "Upstream \<Rightarrow> string \<Rightarrow> LeagueHistory list \<Rightarrow> PlayerAcquisitionData list" where
  "allHistoricalSeasonData up userId leagueHistoryData =
     List.map_filter (fetchSeasonData up userId) leagueHistoryData"

section \<open>Startup-draft classifier\<close>

text \<open>
  \<^verbatim>\<open>Number(draft_id)\<close> on identifiers that are digit strings, as the data source's
  draft identifiers are; the empty string is 0. Every other text is taken as NaN
  (\<open>None\<close>), although the source also reads signed, padded, hexadecimal and exponent
  forms as numbers. The source compares the identifiers as doubles, so identifiers
  above \<open>2\<^sup>5\<^sup>3\<close> that differ only in their last digits compare equal there; the
  model compares exact integers. The proofs below use of the sort only that it keeps
  the set of drafts.
\<close>

definition toNumber :: "string \<Rightarrow> int option" where
  "toNumber s =
     (if s = [] then Some 0
      else if list_all (isDigitOf 10) s then Some (int (digitsValue 10 s))
      else None)"

text \<open>
  \<^verbatim>\<open>drafts.sort((a, b) => Number(a.draftInfo.draft_id) - Number(b.draftInfo.draft_id))\<close>:
  a stable sort; the comparator moves \<open>a\<close> behind \<open>b\<close> only when the difference is
  positive, and a NaN difference counts as zero. With such an inconsistent comparator
  the order an engine produces is implementation-defined; the model is an insertion
  sort and agrees with the source when all identifiers are numeric.
\<close>

definition draftAfter :: "DraftWithPicks \<Rightarrow> DraftWithPicks \<Rightarrow> bool" where
  "draftAfter a b =
     (case (toNumber (draft_id (draftInfo a)), toNumber (draft_id (draftInfo b))) of
        (Some x, Some y) \<Rightarrow> 0 < x - y
      | _ \<Rightarrow> False)"

fun insertDraft :: "DraftWithPicks \<Rightarrow> DraftWithPicks list \<Rightarrow> DraftWithPicks list" where
  "insertDraft x [] = [x]"
| "insertDraft x (y # ys) = (if draftAfter y x then x # y # ys else y # insertDraft x ys)"

definition sortDrafts :: "DraftWithPicks list \<Rightarrow> DraftWithPicks list" where
  "sortDrafts ds = foldl (\<lambda>sorted d. insertDraft d sorted) [] ds"

definition truthyString :: "string option \<Rightarrow> bool" where
  "truthyString s = (case s of None \<Rightarrow> False | Some t \<Rightarrow> t \<noteq> [])"

definition userParticipated :: "string \<Rightarrow> DraftWithPicks \<Rightarrow> bool" where
  "userParticipated userId draft = list_ex (\<lambda>p. picked_by p = userId) (picks draft)"

definition namedStartup :: "DraftWithPicks \<Rightarrow> bool" where
  "namedStartup draft =
     (draft_type (draftInfo draft) = Some ''startup''
      \<or> includes_str (toLowerCase (draft_id (draftInfo draft))) ''startup''
      \<or> includes_str (toLowerCase (draft_id (draftInfo draft))) ''initial'')"

text \<open>The first loop over \<^verbatim>\<open>sortedDrafts\<close>; the first equation that returns is the \<^verbatim>\<open>break\<close>.\<close>

fun designateStartup :: "string \<Rightarrow> DraftWithPicks list \<Rightarrow> string option \<Rightarrow> string option" where
  "designateStartup userId [] designated = designated"
| "designateStartup userId (draft # rest) designated =
     (if userParticipated userId draft
      then (if namedStartup draft then Some (draft_id (draftInfo draft))
            else designateStartup userId rest
                   (if \<not> truthyString designated then Some (draft_id (draftInfo draft))
                    else designated))
      else designateStartup userId rest designated)"

record LineageScan =
  userEarliestSeasonData :: "LeagueHistory option"
  userDesignatedStartupDraftIdInEarliestSeason :: "string option"
  draftsExistBeforeUserJoinedThisLineage :: bool
  foundUserInLineage :: bool

definition seasonMeta :: "LeagueHistory list \<Rightarrow> PlayerAcquisitionData \<Rightarrow> LeagueHistory option" where
  "seasonMeta leagueHistoryData histData =
     find (\<lambda>lh. league_id lh = data_leagueId histData \<and> season lh = data_seasonLabel histData)
       leagueHistoryData"

text \<open>One iteration of the first loop over \<^verbatim>\<open>allHistoricalSeasonData\<close>.\<close>

definition scanSeason ::
  "string \<Rightarrow> LeagueHistory list \<Rightarrow> LineageScan \<Rightarrow> PlayerAcquisitionData \<Rightarrow> LineageScan" where
  "scanSeason userId leagueHistoryData st histData =
     (case data_roster histData of
        Some userRosterInThisHistoricalSeason \<Rightarrow>
          if \<not> foundUserInLineage st
          then (let sortedDrafts = sortDrafts (data_drafts histData);
                    d1 = designateStartup userId sortedDrafts
                           (userDesignatedStartupDraftIdInEarliestSeason st);
                    d2 = (if \<not> truthyString d1 \<and> sortedDrafts \<noteq> []
                          then (case find (userParticipated userId) sortedDrafts of
                                  Some draft \<Rightarrow> Some (draft_id (draftInfo draft))
                                | None \<Rightarrow> d1)
                          else d1)
                in st\<lparr>foundUserInLineage := True,
                      userEarliestSeasonData := seasonMeta leagueHistoryData histData,
                      userDesignatedStartupDraftIdInEarliestSeason := d2\<rparr>)
          else st
      | None \<Rightarrow>
          if data_drafts histData \<noteq> [] \<and> \<not> foundUserInLineage st
          then st\<lparr>draftsExistBeforeUserJoinedThisLineage := True\<rparr>
          else st)"

definition scanLineage ::
  "string \<Rightarrow> LeagueHistory list \<Rightarrow> PlayerAcquisitionData list \<Rightarrow> LineageScan" where
  "scanLineage userId leagueHistoryData seasons =
     foldl (scanSeason userId leagueHistoryData)
       \<lparr>userEarliestSeasonData = None,
        userDesignatedStartupDraftIdInEarliestSeason = None,
        draftsExistBeforeUserJoinedThisLineage = False,
        foundUserInLineage = False\<rparr>
       seasons"

text \<open>\<^verbatim>\<open>leagueDetails?.settings?.type === 0\<close>\<close>

definition isRedraft :: "LeagueDetails option \<Rightarrow> bool" where
  "isRedraft leagueDetails =
     (case leagueDetails of None \<Rightarrow> False | Some l \<Rightarrow> settings_type l = Some 0)"

definition currentDraftType :: "bool \<Rightarrow> LineageScan \<Rightarrow> LeagueHistory \<Rightarrow> DraftInfo \<Rightarrow> string" where
  "currentDraftType redraft scan historicalSeasonMeta info =
     (if redraft then ''Startup Draft''
      else if \<not> draftsExistBeforeUserJoinedThisLineage scan
              \<and> (case userEarliestSeasonData scan of
                    None \<Rightarrow> False
                  | Some earliest \<Rightarrow> season historicalSeasonMeta = season earliest)
              \<and> Some (draft_id info) = userDesignatedStartupDraftIdInEarliestSeason scan
      then ''Startup Draft''
      else ''Rookie Draft'')"

section \<open>Acquisition fuser and fallback (\<^verbatim>\<open>getPlayerAcquisitions\<close>)\<close>

text \<open>A number is falsy when it is 0 or NaN.\<close>

definition falsyNumber :: "int option \<Rightarrow> bool" where
  "falsyNumber n = (n = None \<or> n = Some 0)"

text \<open>\<^verbatim>\<open>a > b\<close> where \<open>b\<close> may be NaN: a comparison with NaN is false.\<close>

definition jsGreater :: "int \<Rightarrow> int option \<Rightarrow> bool" where
  "jsGreater a b = (case b of None \<Rightarrow> False | Some c \<Rightarrow> c < a)"

definition initialAcquisitions :: "SleeperRoster \<Rightarrow> acquisitions" where
  "initialAcquisitions roster =
     foldl (\<lambda>acquisitions playerId.
              acquisitions(playerId \<mapsto> \<lparr>acq_type = ''Unknown'', details = [], timestamp = Some 0\<rparr>))
       Map.empty (players roster)"

text \<open>
  The guard of a draft pick:
  \<^verbatim>\<open>pick.player_id && (acquisitions[id]?.type === "Unknown" || !acquisitions[id]?.timestamp)\<close>.
  For an identifier without a record both optional chains are undefined, so the second
  disjunct is true.
\<close>

definition pickApplies :: "acquisitions \<Rightarrow> SleeperDraftPick \<Rightarrow> bool" where
  "pickApplies acquisitions pick =
     (player_id pick \<noteq> []
      \<and> (case acquisitions (player_id pick) of
           None \<Rightarrow> True
         | Some current \<Rightarrow> acq_type current = ''Unknown'' \<or> falsyNumber (timestamp current)))"

text \<open>
  The body of the loop over \<^verbatim>\<open>userPicksInThisDraft\<close>; the state is the record map and
  \<^verbatim>\<open>userStartupDraftPlayerCount\<close>.
\<close>

definition applyPick ::
  "Host \<Rightarrow> LeagueDetails option \<Rightarrow> string \<Rightarrow> LeagueHistory \<Rightarrow> acquisitions \<times> nat \<Rightarrow>
     SleeperDraftPick \<Rightarrow> acquisitions \<times> nat" where
  "applyPick host leagueDetails draftType historicalSeasonMeta st pick =
     (if pickApplies (fst st) pick
      then ((fst st)(player_id pick \<mapsto>
               \<lparr>acq_type = draftType,
                details = pickDetails draftType (season historicalSeasonMeta) pick
                            (teamsInLeague leagueDetails),
                timestamp = seasonTimestamp host (season historicalSeasonMeta)\<rparr>),
            if draftType = ''Startup Draft'' then snd st + 1 else snd st)
      else st)"

text \<open>The body of the loop over \<^verbatim>\<open>sortedDraftsInternal\<close>.\<close>

definition applyDraft ::
  "Host \<Rightarrow> LeagueDetails option \<Rightarrow> LineageScan \<Rightarrow> string \<Rightarrow> LeagueHistory \<Rightarrow> acquisitions \<times> nat \<Rightarrow>
     DraftWithPicks \<Rightarrow> acquisitions \<times> nat" where
  "applyDraft host leagueDetails scan userId historicalSeasonMeta st draftData =
     (let userPicksInThisDraft = filter (\<lambda>p. picked_by p = userId) (picks draftData)
      in if userPicksInThisDraft = [] then st
         else foldl (applyPick host leagueDetails
                       (currentDraftType (isRedraft leagueDetails) scan historicalSeasonMeta
                          (draftInfo draftData))
                       historicalSeasonMeta)
                st userPicksInThisDraft)"

text \<open>
  The overwrite test of a transaction:
  \<^verbatim>\<open>!current || current.type === "Unknown" || (time && (!current.timestamp || time > current.timestamp))\<close>.
\<close>

definition transactionOverwrites :: "Acquisition option \<Rightarrow> int \<Rightarrow> bool" where
  "transactionOverwrites currentAcquisition transactionTime =
     (case currentAcquisition of
        None \<Rightarrow> True
      | Some current \<Rightarrow>
          acq_type current = ''Unknown''
          \<or> (transactionTime \<noteq> 0
              \<and> (falsyNumber (timestamp current) \<or> jsGreater transactionTime (timestamp current))))"

definition transactionRecord :: "Host \<Rightarrow> SleeperTransaction \<Rightarrow> Acquisition" where
  "transactionRecord host transaction =
     (let date = toLocaleDateString host (created transaction)
      in if tx_type transaction = ''trade''
         then \<lparr>acq_type = ''Trade'', details = ''Acquired on '' @ date,
               timestamp = Some (created transaction)\<rparr>
         else if tx_type transaction = ''waiver''
         then \<lparr>acq_type = ''Waiver Wire'',
               details = (case waiver_bid transaction of
                            None \<Rightarrow> ''Acquired on '' @ date
                          | Some bid \<Rightarrow>
                              if bid = 0 then ''Acquired on '' @ date
                              else ''Paid '' @ numToString bid @ '' FAAB on '' @ date),
               timestamp = Some (created transaction)\<rparr>
         else if tx_type transaction = ''free_agent''
         then \<lparr>acq_type = ''Free Agency'', details = ''Acquired on '' @ date,
               timestamp = Some (created transaction)\<rparr>
         else \<lparr>acq_type = ''Unknown Transaction'', details = ''Acquired on '' @ date,
               timestamp = Some (created transaction)\<rparr>)"

text \<open>The body of the loop over the keys of \<^verbatim>\<open>transaction.adds\<close>.\<close>

definition applyAdd ::
  "Host \<Rightarrow> SleeperRoster \<Rightarrow> SleeperTransaction \<Rightarrow> acquisitions \<Rightarrow> string \<Rightarrow> acquisitions" where
  "applyAdd host roster transaction acquisitions playerId =
     (if playerId \<in> set (players roster)
      then (if transactionOverwrites (acquisitions playerId) (created transaction)
            then acquisitions(playerId \<mapsto> transactionRecord host transaction)
            else acquisitions)
      else acquisitions)"

definition applyTransaction ::
  "Host \<Rightarrow> SleeperRoster \<Rightarrow> SleeperRoster \<Rightarrow> acquisitions \<Rightarrow> SleeperTransaction \<Rightarrow> acquisitions" where
  "applyTransaction host roster userRosterThisSeason acquisitions transaction =
     (if roster_id userRosterThisSeason \<notin> set (roster_ids transaction) then acquisitions
      else (case adds transaction of
              None \<Rightarrow> acquisitions
            | Some added \<Rightarrow> foldl (applyAdd host roster transaction) acquisitions (map fst added)))"

text \<open>
  One iteration of the second loop over \<^verbatim>\<open>allHistoricalSeasonData\<close>. The source sorts
  the season's draft array in place, so in the participant's earliest season this loop
  sorts an array that the first loop has sorted already; for numeric identifiers the
  second sort changes nothing, and the model sorts once.
\<close>

definition fuseSeason ::
  "Host \<Rightarrow> LeagueDetails option \<Rightarrow> LineageScan \<Rightarrow> LeagueHistory list \<Rightarrow> string \<Rightarrow> SleeperRoster \<Rightarrow>
     acquisitions \<times> nat \<Rightarrow> PlayerAcquisitionData \<Rightarrow> acquisitions \<times> nat" where
  "fuseSeason host leagueDetails scan leagueHistoryData userId roster st histData =
     (case data_roster histData of
        None \<Rightarrow> st
      | Some userRosterThisSeason \<Rightarrow>
          (case seasonMeta leagueHistoryData histData of
             None \<Rightarrow> st
           | Some historicalSeasonMeta \<Rightarrow>
               (let drafted = foldl (applyDraft host leagueDetails scan userId historicalSeasonMeta)
                                st (sortDrafts (data_drafts histData))
                in (foldl (applyTransaction host roster userRosterThisSeason) (fst drafted)
                      (data_transactions histData),
                    snd drafted))))"

definition fuseLineage ::
  "Host \<Rightarrow> LeagueDetails option \<Rightarrow> LineageScan \<Rightarrow> LeagueHistory list \<Rightarrow> string \<Rightarrow> SleeperRoster \<Rightarrow>
     PlayerAcquisitionData list \<Rightarrow> acquisitions \<times> nat" where
  "fuseLineage host leagueDetails scan leagueHistoryData userId roster seasons =
     foldl (fuseSeason host leagueDetails scan leagueHistoryData userId roster)
       (initialAcquisitions roster, 0) seasons"

text \<open>The condition of the final reclassification, with its four disjuncts in source order.\<close>

definition fallbackApplies :: "LineageScan \<Rightarrow> nat \<Rightarrow> bool" where
  "fallbackApplies scan userStartupDraftPlayerCount =
     (draftsExistBeforeUserJoinedThisLineage scan
      \<or> (foundUserInLineage scan \<and> userStartupDraftPlayerCount = 0
          \<and> truthyString (userDesignatedStartupDraftIdInEarliestSeason scan))
      \<or> (foundUserInLineage scan
          \<and> \<not> truthyString (userDesignatedStartupDraftIdInEarliestSeason scan))
      \<or> \<not> foundUserInLineage scan)"

definition previousOwner :: "acquisitions \<Rightarrow> acquisitions" where
  "previousOwner acquisitions =
     (\<lambda>playerId.
        case acquisitions playerId of
          None \<Rightarrow> None
        | Some current \<Rightarrow>
            if acq_type current = ''Unknown''
            then Some \<lparr>acq_type = ''Previous Owner'',
                       details = ''On roster when user took over team'', timestamp = Some 0\<rparr>
            else Some current)"

text \<open>
  \<^verbatim>\<open>getPlayerAcquisitions\<close> with a signal that is never aborted. \<open>cachedData\<close> is what the
  persistent cache holds for the participant and league, \<open>leagueDetails\<close> and
  \<open>leagueHistoryData\<close> are the awaited results of \<^verbatim>\<open>getLeagueDetails\<close> and
  \<^verbatim>\<open>getLeagueHistory\<close>. The writes of the result into the persistent cache are left out.
\<close>

definition getPlayerAcquisitions ::
  "Host \<Rightarrow> acquisitions option \<Rightarrow> LeagueDetails option \<Rightarrow> LeagueHistory list \<Rightarrow> Upstream \<Rightarrow>
     string \<Rightarrow> SleeperRoster \<Rightarrow> acquisitions" where
  "getPlayerAcquisitions host cachedData leagueDetails leagueHistoryData up userId roster =
     (case cachedData of
        Some cached \<Rightarrow> cached
      | None \<Rightarrow>
          if leagueHistoryData = [] then initialAcquisitions roster
          else (let seasons = allHistoricalSeasonData up userId leagueHistoryData;
                    scan = scanLineage userId leagueHistoryData seasons;
                    fused = fuseLineage host leagueDetails scan leagueHistoryData userId roster seasons
                in if fallbackApplies scan (snd fused) then previousOwner (fst fused)
                   else fst fused))"

text \<open>
  The overwrite rule of a transaction as the specification words it: the current record
  is \<^verbatim>\<open>Unknown\<close>, or the transaction's time is strictly greater than the record's.
\<close>

definition spec_transaction_overwrites :: "Acquisition \<Rightarrow> int \<Rightarrow> bool" where
  "spec_transaction_overwrites current createdAt =
     (acq_type current = ''Unknown'' \<or> jsGreater createdAt (timestamp current))"

text \<open>Notions used to state the properties of the fuser.\<close>

definition knownRecord :: "acquisitions \<Rightarrow> string \<Rightarrow> bool" where
  "knownRecord acquisitions playerId =
     (\<exists>current. acquisitions playerId = Some current \<and> acq_type current \<noteq> ''Unknown'')"

definition noRookieDraft :: "acquisitions \<Rightarrow> bool" where
  "noRookieDraft acquisitions =
     (\<forall>playerId current. acquisitions playerId = Some current
        \<longrightarrow> acq_type current \<noteq> ''Rookie Draft'')"

text \<open>
  A player is named by an event of a season when the participant has a roster in that
  season and picked the player in one of the season's drafts, or a transaction of the
  season adds the player.
\<close>

definition namedByEvent :: "string \<Rightarrow> string \<Rightarrow> PlayerAcquisitionData \<Rightarrow> bool" where
  "namedByEvent userId playerId histData =
     (data_roster histData \<noteq> None \<and>
      (list_ex (\<lambda>draft. list_ex (\<lambda>p. picked_by p = userId \<and> player_id p = playerId) (picks draft))
        (data_drafts histData)
      \<or> list_ex (\<lambda>transaction.
                   case adds transaction of
                     None \<Rightarrow> False
                   | Some added \<Rightarrow> playerId \<in> set (map fst added))
           (data_transactions histData)))"

definition scanOf :: "Upstream \<Rightarrow> string \<Rightarrow> LeagueHistory list \<Rightarrow> LineageScan" where
  "scanOf up userId leagueHistoryData =
     scanLineage userId leagueHistoryData (allHistoricalSeasonData up userId leagueHistoryData)"

definition fusedOf ::
  "Host \<Rightarrow> LeagueDetails option \<Rightarrow> LeagueHistory list \<Rightarrow> Upstream \<Rightarrow> string \<Rightarrow> SleeperRoster \<Rightarrow>
     acquisitions \<times> nat" where
  "fusedOf host leagueDetails leagueHistoryData up userId roster =
     fuseLineage host leagueDetails (scanOf up userId leagueHistoryData) leagueHistoryData userId
       roster (allHistoricalSeasonData up userId leagueHistoryData)"

section \<open>Persistent cache (\<^verbatim>\<open>src/lib/persistentCache.ts\<close>)\<close>

definition CACHE_PREFIX :: string where
  "CACHE_PREFIX = ''sleeperHistoryCache_''"

definition DEFAULT_CACHE_DURATION_MS :: int where
  "DEFAULT_CACHE_DURATION_MS = 60 * 60 * 1000"

record 'a CacheItem =
  item_timestamp :: int
  item_data :: 'a
  item_duration :: int

text \<open>
  The browser's \<^verbatim>\<open>localStorage\<close>: it may be inaccessible altogether (every call throws),
  and \<^verbatim>\<open>setItem\<close> throws when the stored keys and values would exceed the quota. That
  is why the source wraps \<^verbatim>\<open>setItem\<close> in \<^verbatim>\<open>try\<close> even after the availability test.
\<close>

record LocalStorage =
  accessible :: bool
  quota :: nat
  items :: "(string \<times> string) list"

definition storedSize :: "(string \<times> string) list \<Rightarrow> nat" where
  "storedSize kvs = sum_list (map (\<lambda>(k, v). length k + length v) kvs)"

definition setItem :: "LocalStorage \<Rightarrow> string \<Rightarrow> string \<Rightarrow> LocalStorage option" where
  "setItem ls k v =
     (if accessible ls \<and> storedSize (AList.update k v (items ls)) \<le> quota ls
      then Some (ls\<lparr>items := AList.update k v (items ls)\<rparr>)
      else None)"

definition getItem :: "LocalStorage \<Rightarrow> string \<Rightarrow> string option" where
  "getItem ls k = map_of (items ls) k"

definition removeItem :: "LocalStorage \<Rightarrow> string \<Rightarrow> LocalStorage" where
  "removeItem ls k = ls\<lparr>items := AList.delete k (items ls)\<rparr>"

definition testKey :: string where
  "testKey = ''__testLocalStorage__''"

definition isLocalStorageAvailable :: "LocalStorage \<Rightarrow> bool \<times> LocalStorage" where
  "isLocalStorageAvailable ls =
     (case setItem ls testKey testKey of
        None \<Rightarrow> (False, ls)
      | Some ls' \<Rightarrow> (True, removeItem ls' testKey))"

text \<open>
  \<^verbatim>\<open>JSON.stringify\<close> and \<^verbatim>\<open>JSON.parse\<close> at the type of a cache item: \<open>stringify\<close> may throw
  (a cyclic value), \<open>parse\<close> throws on text that is not JSON; \<open>None\<close> is the throw.
\<close>

record 'a Json =
  stringify :: "'a CacheItem \<Rightarrow> string option"
  parse :: "string \<Rightarrow> 'a CacheItem option"

text \<open>\<open>now\<close> is the value of \<^verbatim>\<open>Date.now()\<close> at the call.\<close>

definition saveToCache ::
  "'a Json \<Rightarrow> int \<Rightarrow> LocalStorage \<Rightarrow> string \<Rightarrow> 'a \<Rightarrow> int \<Rightarrow> LocalStorage" where
  "saveToCache json now ls key d duration =
     (case isLocalStorageAvailable ls of
        (False, ls1) \<Rightarrow> ls1
      | (True, ls1) \<Rightarrow>
          (case stringify json \<lparr>item_timestamp = now, item_data = d, item_duration = duration\<rparr> of
             None \<Rightarrow> ls1
           | Some text \<Rightarrow>
               (case setItem ls1 (CACHE_PREFIX @ key) text of
                  None \<Rightarrow> ls1
                | Some ls2 \<Rightarrow> ls2)))"

text \<open>The result \<open>None\<close> is the source's \<^verbatim>\<open>null\<close>.\<close>

definition getFromCache ::
  "'a Json \<Rightarrow> int \<Rightarrow> LocalStorage \<Rightarrow> string \<Rightarrow> 'a option \<times> LocalStorage" where
  "getFromCache json now ls key =
     (case isLocalStorageAvailable ls of
        (False, ls1) \<Rightarrow> (None, ls1)
      | (True, ls1) \<Rightarrow>
          (case getItem ls1 (CACHE_PREFIX @ key) of
             None \<Rightarrow> (None, ls1)
           | Some itemStr \<Rightarrow>
               if itemStr = [] then (None, ls1)
               else (case parse json itemStr of
                       None \<Rightarrow> (None, removeItem ls1 (CACHE_PREFIX @ key))
                     | Some item \<Rightarrow>
                         if now - item_timestamp item < item_duration item
                         then (Some (item_data item), ls1)
                         else (None, removeItem ls1 (CACHE_PREFIX @ key)))))"

section \<open>Sample data\<close>

text \<open>
  A lineage of two seasons, \<open>L2\<close> (2024) following \<open>L1\<close> (2023); every other request
  fails. And a lineage whose previous-league pointers form a cycle.
\<close>

definition sampleLeagues :: "string \<Rightarrow> LeagueHistoryData option Fetched" where
  "sampleLeagues leagueId =
     (if leagueId = ''L2''
      then Resolved (Some \<lparr>data_season = ''2024'', previous_league_id = Some ''L1''\<rparr>)
      else if leagueId = ''L1''
      then Resolved (Some \<lparr>data_season = ''2023'', previous_league_id = None\<rparr>)
      else Failed)"

definition cyclicLeagues :: "string \<Rightarrow> LeagueHistoryData option Fetched" where
  "cyclicLeagues leagueId =
     (if leagueId = ''A''
      then Resolved (Some \<lparr>data_season = ''2024'', previous_league_id = Some ''B''\<rparr>)
      else Resolved (Some \<lparr>data_season = ''2023'', previous_league_id = Some ''A''\<rparr>))"

text \<open>
  A season with a trade in each of the weeks 1 to 4 and in week 6, and nothing in the
  other weeks.
\<close>

definition sampleTrade :: SleeperTransaction where
  "sampleTrade =
     \<lparr>transaction_id = ''T1'', tx_type = ''trade'', roster_ids = [1],
      adds = Some [(''P1'', 1)], created = 1700000000000, waiver_bid = None\<rparr>"

definition earlierWaiver :: SleeperTransaction where
  "earlierWaiver =
     \<lparr>transaction_id = ''T0'', tx_type = ''waiver'', roster_ids = [1],
      adds = Some [(''P1'', 1)], created = 1690000000000, waiver_bid = Some 15\<rparr>"

definition sampleWeeks :: "nat \<Rightarrow> SleeperTransaction list option Fetched" where
  "sampleWeeks w = (if w \<le> 4 \<or> w = 6 then Resolved (Some [sampleTrade]) else Resolved (Some []))"

definition neverAborted :: "nat \<Rightarrow> bool" where
  "neverAborted w = False"

text \<open>
  \<^verbatim>\<open>JSON.stringify\<close> and \<^verbatim>\<open>JSON.parse\<close> for cache items whose data is an integer, for
  example \<^verbatim>\<open>{"timestamp":1000,"data":7,"duration":500}\<close>; a storage with plenty of room
  and one whose quota admits the availability test but not that entry.
\<close>

definition dq :: string where
  "dq = [CHR 0x22]"

definition stringifyIntItem :: "int CacheItem \<Rightarrow> string option" where
  "stringifyIntItem i =
     Some (''{'' @ dq @ ''timestamp'' @ dq @ '':'' @ numToString (item_timestamp i)
           @ '','' @ dq @ ''data'' @ dq @ '':'' @ numToString (item_data i)
           @ '','' @ dq @ ''duration'' @ dq @ '':'' @ numToString (item_duration i) @ ''}'')"

definition expect :: "string \<Rightarrow> string \<Rightarrow> string option" where
  "expect p s = (if startsWith s p then Some (drop (length p) s) else None)"

definition readInt :: "string \<Rightarrow> (int \<times> string) option" where
  "readInt s =
     (let u = (if startsWith s ''-'' then tl s else s);
          ds = takeWhile (isDigitOf 10) u
      in if ds = [] then None
         else Some (if startsWith s ''-'' then - int (digitsValue 10 ds) else int (digitsValue 10 ds),
                    dropWhile (isDigitOf 10) u))"

definition parseIntItem :: "string \<Rightarrow> int CacheItem option" where
  "parseIntItem s =
     (case expect (''{'' @ dq @ ''timestamp'' @ dq @ '':'') s of
        None \<Rightarrow> None
      | Some s1 \<Rightarrow>
     (case readInt s1 of
        None \<Rightarrow> None
      | Some (t, s2) \<Rightarrow>
     (case expect ('','' @ dq @ ''data'' @ dq @ '':'') s2 of
        None \<Rightarrow> None
      | Some s3 \<Rightarrow>
     (case readInt s3 of
        None \<Rightarrow> None
      | Some (v, s4) \<Rightarrow>
     (case expect ('','' @ dq @ ''duration'' @ dq @ '':'') s4 of
        None \<Rightarrow> None
      | Some s5 \<Rightarrow>
     (case readInt s5 of
        None \<Rightarrow> None
      | Some (d, s6) \<Rightarrow>
          if s6 = ''}'' then Some \<lparr>item_timestamp = t, item_data = v, item_duration = d\<rparr>
          else None))))))"

definition intJson :: "int Json" where
  "intJson = \<lparr>stringify = stringifyIntItem, parse = parseIntItem\<rparr>"

definition sampleItemText :: string where
  "sampleItemText =
     ''{'' @ dq @ ''timestamp'' @ dq @ '':1000,'' @ dq @ ''data'' @ dq @ '':7,''
       @ dq @ ''duration'' @ dq @ '':500}''"

definition roomyStorage :: LocalStorage where
  "roomyStorage = \<lparr>accessible = True, quota = 200, items = []\<rparr>"

definition tightStorage :: LocalStorage where
  "tightStorage = \<lparr>accessible = True, quota = 50, items = []\<rparr>"

text \<open>
  A host in the UTC time zone (\<open>utcJune1\<close> counts the days from 1 January 1970 to
  1 June of the year; it is meant for four-digit years within the range of \<^verbatim>\<open>Date\<close>
  and is used at 2023 and 2024), which prints the two transaction times used below.
\<close>

definition utcJune1 :: "int \<Rightarrow> int option" where
  "utcJune1 y =
     Some (86400000 *
       (365 * (y - 1970)
        + ((y - 1) div 4 - (y - 1) div 100 + (y - 1) div 400 - 477)
        + 151
        + (if y mod 4 = 0 \<and> (y mod 100 \<noteq> 0 \<or> y mod 400 = 0) then 1 else 0)))"

definition sampleHost :: Host where
  "sampleHost =
     \<lparr>localJune1 = utcJune1,
      toLocaleDateString = (\<lambda>t.
        if t = 1700000000000 then ''Nov 14, 2023''
        else if t = 1690000000000 then ''Jul 22, 2023''
        else ''Jan 1, 1970'')\<rparr>"

text \<open>
  Participant \<open>U1\<close> holds roster 1 with the players \<open>P1\<close> and \<open>P2\<close>. In league \<open>L1\<close>
  (season 2023) draft \<open>1001\<close> has three picks: \<open>U1\<close> took \<open>P1\<close> and \<open>P9\<close> (who is no
  longer on the roster), \<open>U2\<close> took \<open>P5\<close>. In league \<open>L2\<close> (season 2024) draft \<open>2001\<close>
  has one pick: \<open>U1\<close> took \<open>P2\<close>. No season has transactions.
\<close>

definition sampleRoster :: SleeperRoster where
  "sampleRoster = \<lparr>roster_id = 1, owner_id = ''U1'', players = [''P1'', ''P2'']\<rparr>"

definition otherRoster :: SleeperRoster where
  "otherRoster = \<lparr>roster_id = 3, owner_id = ''U3'', players = [''P7'']\<rparr>"

definition pickP1 :: SleeperDraftPick where
  "pickP1 = \<lparr>player_id = ''P1'', picked_by = ''U1'', pick_round = 1, pick_no = 3\<rparr>"

definition sampleUpstream :: Upstream where
  "sampleUpstream =
     \<lparr>userRosters = (\<lambda>leagueId. Some [sampleRoster]),
      leagueDrafts = (\<lambda>leagueId.
        if leagueId = ''L1'' then Inr [\<lparr>draft_id = ''1001'', draft_type = Some ''snake''\<rparr>]
        else Inr [\<lparr>draft_id = ''2001'', draft_type = Some ''snake''\<rparr>]),
      draftPicks = (\<lambda>draftId.
        if draftId = ''1001''
        then Inr [pickP1,
                  \<lparr>player_id = ''P9'', picked_by = ''U1'', pick_round = 2, pick_no = 22\<rparr>,
                  \<lparr>player_id = ''P5'', picked_by = ''U2'', pick_round = 1, pick_no = 4\<rparr>]
        else Inr [\<lparr>player_id = ''P2'', picked_by = ''U1'', pick_round = 1, pick_no = 5\<rparr>]),
      leagueTransactions = (\<lambda>leagueId. Inr [])\<rparr>"

text \<open>
  The same leagues, but with \<open>U1\<close> joining only in \<open>L2\<close>: league \<open>L1\<close> has no roster of
  \<open>U1\<close>, so its draft precedes the participant's earliest season.
\<close>

definition lateJoinUpstream :: Upstream where
  "lateJoinUpstream =
     sampleUpstream\<lparr>userRosters := (\<lambda>leagueId.
        if leagueId = ''L1'' then Some [otherRoster] else Some [sampleRoster])\<rparr>"

definition oneSeason :: "LeagueHistory list" where
  "oneSeason = [\<lparr>league_id = ''L1'', previousLeagueId = None, season = ''2023''\<rparr>]"

definition twoSeasons :: "LeagueHistory list" where
  "twoSeasons =
     [\<lparr>league_id = ''L1'', previousLeagueId = None, season = ''2023''\<rparr>,
      \<lparr>league_id = ''L2'', previousLeagueId = Some ''L1'', season = ''2024''\<rparr>]"

definition dynastyLeague :: "LeagueDetails option" where
  "dynastyLeague = Some \<lparr>total_rosters = 12, settings_type = Some 2\<rparr>"

definition tenTeamLeague :: "LeagueDetails option" where
  "tenTeamLeague = Some \<lparr>total_rosters = 10, settings_type = Some 2\<rparr>"

definition redraftLeague :: "LeagueDetails option" where
  "redraftLeague = Some \<lparr>total_rosters = 12, settings_type = Some 0\<rparr>"

section \<open>Properties\<close>

subsection \<open>Number formatting\<close>

lemma showNat_length_small: "n < 10 \<Longrightarrow> length (showNat n) = 1"
  by simp

lemma showNat_length_big: "10 \<le> n \<Longrightarrow> 2 \<le> length (showNat n)"
proof -
  assume "10 \<le> n"
  then have "showNat n = showNat (n div 10) @ [digitChar (n mod 10)]"
    by simp
  moreover have "1 \<le> length (showNat (n div 10))"
    by (subst showNat.simps) simp
  ultimately show ?thesis
    by simp
qed

lemma formattedPickNumber_zeroPad2:
  assumes "1 \<le> p"
  shows "formattedPickNumber p = zeroPad2 (numToString p)"
proof (cases "p < 10")
  case True
  with assms have "length (showNat (nat p)) = 1"
    by (intro showNat_length_small) simp
  with True assms show ?thesis
    by (simp add: formattedPickNumber_def zeroPad2_def numToString_def)
next
  case False
  then have "2 \<le> length (showNat (nat p))"
    by (intro showNat_length_big) simp
  with False show ?thesis
    by (simp add: formattedPickNumber_def zeroPad2_def numToString_def)
qed

lemma pickInRound_formula:
  assumes "1 \<le> n" and "0 < t"
  shows "pickInRound n t = (n - 1) mod t + 1"
proof -
  from assms have rem: "jsRem n t = n mod t"
    by (simp add: jsRem_def)
  have step: "(n - 1) mod t = (n mod t - 1) mod t"
    by (simp add: mod_diff_left_eq)
  show ?thesis
  proof (cases "n mod t = 0")
    case True
    from assms have "(- 1) mod t = t - 1"
      by (simp add: zmod_minus1)
    with True step rem show ?thesis
      by (simp add: pickInRound_def)
  next
    case False
    from assms have "0 \<le> n mod t"
      by simp
    with False have "1 \<le> n mod t"
      by simp
    moreover from assms have "n mod t < t"
      by simp
    ultimately have "(n mod t - 1) mod t = n mod t - 1"
      by simp
    with False step rem show ?thesis
      by (simp add: pickInRound_def)
  qed
qed

text \<open>
  C5. For a pick with 1-based overall number \<open>n\<close> in a league whose details give a
  positive team count \<open>t\<close>, the team count the fuser uses is \<open>t\<close>, and it is 12 when the
  league details are missing or the count is missing (zero). The slot the fuser formats
  is \<open>((n - 1) mod t) + 1\<close> zero-padded to two digits; the detail of a startup pick is
  the round, a dot and that slot, the detail of a rookie pick has the season label in
  front; and the record a pick writes carries that detail. With 12 teams, pick 24 of
  round 2 gives \<open>2.12\<close> and pick 25 of round 3 gives \<open>3.01\<close>.
\<close>

theorem pick_slot_formula:
  assumes "1 \<le> pick_no pick" and "0 < total_rosters l"
  shows "teamsInLeague (Some l) = total_rosters l
         \<and> teamsInLeague None = 12
         \<and> teamsInLeague (Some (l\<lparr>total_rosters := 0\<rparr>)) = 12
         \<and> formattedPickNumber (pickInRound (pick_no pick) (teamsInLeague (Some l)))
             = spec_slot (pick_no pick) (total_rosters l)
         \<and> formattedPickNumber (pickInRound (pick_no pick) (teamsInLeague None))
             = spec_slot (pick_no pick) 12
         \<and> formattedPickNumber
               (pickInRound (pick_no pick) (teamsInLeague (Some (l\<lparr>total_rosters := 0\<rparr>))))
             = spec_slot (pick_no pick) 12
         \<and> pickDetails ''Startup Draft'' seasonLabel pick (teamsInLeague (Some l))
             = numToString (pick_round pick) @ ''.'' @ spec_slot (pick_no pick) (total_rosters l)
         \<and> pickDetails ''Rookie Draft'' seasonLabel pick (teamsInLeague (Some l))
             = seasonLabel @ '' '' @ numToString (pick_round pick) @ ''.''
                 @ spec_slot (pick_no pick) (total_rosters l)
         \<and> (pickApplies acquisitions pick
              \<longrightarrow> fst (applyPick host (Some l) ''Startup Draft'' historicalSeasonMeta
                          (acquisitions, n) pick) (player_id pick)
                    = Some \<lparr>acq_type = ''Startup Draft'',
                            details = numToString (pick_round pick) @ ''.''
                                        @ spec_slot (pick_no pick) (total_rosters l),
                            timestamp = seasonTimestamp host (season historicalSeasonMeta)\<rparr>)"
proof -
  have slot: "formattedPickNumber (pickInRound (pick_no pick) t) = spec_slot (pick_no pick) t"
    if "0 < t" for t
  proof -
    from assms(1) that have p: "pickInRound (pick_no pick) t = (pick_no pick - 1) mod t + 1"
      by (rule pickInRound_formula)
    from that have "0 \<le> (pick_no pick - 1) mod t"
      by simp
    then have "1 \<le> (pick_no pick - 1) mod t + 1"
      by simp
    then have "formattedPickNumber ((pick_no pick - 1) mod t + 1)
                 = zeroPad2 (numToString ((pick_no pick - 1) mod t + 1))"
      by (rule formattedPickNumber_zeroPad2)
    with p show ?thesis
      by (simp add: spec_slot_def)
  qed
  have t1: "teamsInLeague (Some l) = total_rosters l"
    using assms(2) by (simp add: teamsInLeague_def)
  have t2: "teamsInLeague None = 12"
    by (simp add: teamsInLeague_def)
  have t3: "teamsInLeague (Some (l\<lparr>total_rosters := 0\<rparr>)) = 12"
    by (simp add: teamsInLeague_def)
  have s1: "formattedPickNumber (pickInRound (pick_no pick) (total_rosters l))
              = spec_slot (pick_no pick) (total_rosters l)"
    using assms(2) by (rule slot)
  have s2: "formattedPickNumber (pickInRound (pick_no pick) 12) = spec_slot (pick_no pick) 12"
    by (rule slot) simp
  have d1: "pickDetails ''Startup Draft'' seasonLabel pick (total_rosters l)
             = numToString (pick_round pick) @ ''.'' @ spec_slot (pick_no pick) (total_rosters l)"
    for seasonLabel
    using s1 by (simp add: pickDetails_def)
  have d2: "pickDetails ''Rookie Draft'' seasonLabel pick (total_rosters l)
             = seasonLabel @ '' '' @ numToString (pick_round pick) @ ''.''
                 @ spec_slot (pick_no pick) (total_rosters l)"
    using s1 by (simp add: pickDetails_def)
  have w: "pickApplies acquisitions pick
              \<longrightarrow> fst (applyPick host (Some l) ''Startup Draft'' historicalSeasonMeta
                          (acquisitions, n) pick) (player_id pick)
                    = Some \<lparr>acq_type = ''Startup Draft'',
                            details = numToString (pick_round pick) @ ''.''
                                        @ spec_slot (pick_no pick) (total_rosters l),
                            timestamp = seasonTimestamp host (season historicalSeasonMeta)\<rparr>"
    using d1 by (simp add: applyPick_def t1)
  from t1 t2 t3 s1 s2 d1 d2 w show ?thesis
    by simp
qed

theorem pick_slot_formula_witness:
  "teamsInLeague dynastyLeague = 12
   \<and> formattedPickNumber (pickInRound 24 (teamsInLeague dynastyLeague)) = ''12''
   \<and> pickDetails ''Startup Draft'' ''2024''
        \<lparr>player_id = ''P3'', picked_by = ''U1'', pick_round = 2, pick_no = 24\<rparr>
        (teamsInLeague dynastyLeague) = ''2.12''
   \<and> formattedPickNumber (pickInRound 25 (teamsInLeague dynastyLeague)) = ''01''
   \<and> pickDetails ''Startup Draft'' ''2024''
        \<lparr>player_id = ''P4'', picked_by = ''U1'', pick_round = 3, pick_no = 25\<rparr>
        (teamsInLeague dynastyLeague) = ''3.01''
   \<and> teamsInLeague tenTeamLeague = 10
   \<and> formattedPickNumber (pickInRound 24 (teamsInLeague tenTeamLeague)) = ''04''
   \<and> pickDetails ''Rookie Draft'' ''2024''
        \<lparr>player_id = ''P3'', picked_by = ''U1'', pick_round = 3, pick_no = 24\<rparr>
        (teamsInLeague tenTeamLeague) = ''2024 3.04''
   \<and> pickApplies (initialAcquisitions sampleRoster) pickP1
   \<and> fst (applyPick sampleHost tenTeamLeague ''Startup Draft''
             \<lparr>league_id = ''L1'', previousLeagueId = None, season = ''2023''\<rparr>
             (initialAcquisitions sampleRoster, 0) pickP1) ''P1''
       = Some \<lparr>acq_type = ''Startup Draft'', details = ''1.03'', timestamp = Some 1685577600000\<rparr>"
proof -
  let ?twelve = "\<lparr>total_rosters = 12, settings_type = Some 2\<rparr>"
  let ?ten = "\<lparr>total_rosters = 10, settings_type = Some 2\<rparr>"
  let ?p24 = "\<lparr>player_id = ''P3'', picked_by = ''U1'', pick_round = 2, pick_no = 24\<rparr>"
  let ?p25 = "\<lparr>player_id = ''P4'', picked_by = ''U1'', pick_round = 3, pick_no = 25\<rparr>"
  let ?q24 = "\<lparr>player_id = ''P3'', picked_by = ''U1'', pick_round = 3, pick_no = 24\<rparr>"
  have s: "spec_slot 24 12 = ''12''" "spec_slot 25 12 = ''01''" "spec_slot 24 10 = ''04''"
          "spec_slot 3 10 = ''03''"
    by code_simp+
  have n: "numToString 1 = ''1''" "numToString 2 = ''2''" "numToString 3 = ''3''"
    by code_simp+
  have ts: "seasonTimestamp sampleHost ''2023'' = Some 1685577600000"
    by code_simp
  have ap: "pickApplies (initialAcquisitions sampleRoster) pickP1"
    by code_simp
  have a: "teamsInLeague (Some ?twelve) = 12
     \<and> formattedPickNumber (pickInRound 24 (teamsInLeague (Some ?twelve))) = spec_slot 24 12
     \<and> pickDetails ''Startup Draft'' ''2024'' ?p24 (teamsInLeague (Some ?twelve))
       = numToString 2 @ ''.'' @ spec_slot 24 12"
    using pick_slot_formula [where pick = ?p24 and l = ?twelve and seasonLabel = "''2024''"
               and acquisitions = "initialAcquisitions sampleRoster" and host = sampleHost and n = 0
               and historicalSeasonMeta =
                     "\<lparr>league_id = ''L1'', previousLeagueId = None, season = ''2023''\<rparr>"]
    by (elim meta_impE conjE) simp_all
  have b: "formattedPickNumber (pickInRound 25 (teamsInLeague (Some ?twelve))) = spec_slot 25 12
     \<and> pickDetails ''Startup Draft'' ''2024'' ?p25 (teamsInLeague (Some ?twelve))
       = numToString 3 @ ''.'' @ spec_slot 25 12"
    using pick_slot_formula [where pick = ?p25 and l = ?twelve and seasonLabel = "''2024''"
               and acquisitions = "initialAcquisitions sampleRoster" and host = sampleHost and n = 0
               and historicalSeasonMeta =
                     "\<lparr>league_id = ''L1'', previousLeagueId = None, season = ''2023''\<rparr>"]
    by (elim meta_impE conjE) simp_all
  have c: "teamsInLeague (Some ?ten) = 10
     \<and> formattedPickNumber (pickInRound 24 (teamsInLeague (Some ?ten))) = spec_slot 24 10
     \<and> pickDetails ''Rookie Draft'' ''2024'' ?q24 (teamsInLeague (Some ?ten))
       = ''2024'' @ '' '' @ numToString 3 @ ''.'' @ spec_slot 24 10"
    using pick_slot_formula [where pick = ?q24 and l = ?ten and seasonLabel = "''2024''"
               and acquisitions = "initialAcquisitions sampleRoster" and host = sampleHost and n = 0
               and historicalSeasonMeta =
                     "\<lparr>league_id = ''L1'', previousLeagueId = None, season = ''2023''\<rparr>"]
    by (elim meta_impE conjE) simp_all
  have d: "fst (applyPick sampleHost (Some ?ten) ''Startup Draft''
             \<lparr>league_id = ''L1'', previousLeagueId = None, season = ''2023''\<rparr>
             (initialAcquisitions sampleRoster, 0) pickP1) (player_id pickP1)
       = Some \<lparr>acq_type = ''Startup Draft'',
               details = numToString (pick_round pickP1) @ ''.'' @ spec_slot (pick_no pickP1) 10,
               timestamp = seasonTimestamp sampleHost ''2023''\<rparr>"
    using pick_slot_formula
            [where pick = pickP1 and l = ?ten and seasonLabel = "''2023''" and acquisitions = "initialAcquisitions sampleRoster"
               and host = sampleHost and n = 0
               and historicalSeasonMeta =
                     "\<lparr>league_id = ''L1'', previousLeagueId = None, season = ''2023''\<rparr>"] ap
    by (elim meta_impE conjE impE) (simp_all add: pickP1_def)
  have pp: "player_id pickP1 = ''P1''" "pick_round pickP1 = 1" "pick_no pickP1 = 3"
    by (simp_all add: pickP1_def)
  from a b c d ap show ?thesis
    unfolding dynastyLeague_def tenTeamLeague_def pp s n ts by (elim conjE) simp
qed

subsection \<open>League lineage walker\<close>

lemma walkLeagues_stop:
  "cur = None \<or> (\<exists>c. cur = Some c \<and> \<not> (c \<noteq> [] \<and> length h < 10 \<and> c \<notin> V))
   \<Longrightarrow> walkLeagues api cur h V = Completed h"
  by (subst walkLeagues.simps) (auto split: option.splits)

lemma walkLeagues_request:
  assumes "c \<noteq> []" and "length h < 10" and "c \<notin> V"
  shows "walkLeagues api (Some c) h V =
           (case api c of
              Cancelled \<Rightarrow> Aborted h
            | Failed \<Rightarrow> Threw h (Some c)
            | Resolved None \<Rightarrow> Completed h
            | Resolved (Some d) \<Rightarrow>
                walkLeagues api (previous_league_id d)
                  (h @ [\<lparr>league_id = c, previousLeagueId = previous_league_id d, season = data_season d\<rparr>])
                  (insert c V))"
  using assms by (subst walkLeagues.simps) simp

lemma chained_Cons:
  "chained (n # xs) = (xs = [] \<or> (previousLeagueId (hd xs) = Some (league_id n) \<and> chained xs))"
  by (cases xs) simp_all

lemma walkLeagues_grows: "\<exists>t. outcomeHistory (walkLeagues api cur h V) = h @ t"
proof (induction api cur h V rule: walkLeagues.induct)
  case (1 api cur h V)
  show ?case
  proof (cases "\<exists>c. cur = Some c \<and> c \<noteq> [] \<and> length h < 10 \<and> c \<notin> V")
    case False
    then have "walkLeagues api cur h V = Completed h"
      by (intro walkLeagues_stop) (cases cur; auto)
    then show ?thesis by (simp add: outcomeHistory_def)
  next
    case True
    then obtain c where c: "cur = Some c" "c \<noteq> []" "length h < 10" "c \<notin> V" by blast
    show ?thesis
    proof (cases "api c")
      case (Resolved d)
      show ?thesis
      proof (cases d)
        case (Some dd)
        from "1.IH"[OF c(1) _ Resolved Some] c
        obtain t where "outcomeHistory (walkLeagues api (previous_league_id dd)
            (h @ [\<lparr>league_id = c, previousLeagueId = previous_league_id dd, season = data_season dd\<rparr>])
            (insert c V)) = (h @ [\<lparr>league_id = c, previousLeagueId = previous_league_id dd, season = data_season dd\<rparr>]) @ t"
          by blast
        with c Resolved Some show ?thesis
          by (simp add: walkLeagues_request)
      qed (use c Resolved in \<open>simp add: walkLeagues_request outcomeHistory_def\<close>)
    qed (use c in \<open>simp_all add: walkLeagues_request outcomeHistory_def\<close>)
  qed
qed

lemma walkLeagues_chained:
  assumes "chained (rev h)" and "h = [] \<or> cur = previousLeagueId (last h)"
  shows "chained (rev (outcomeHistory (walkLeagues api cur h V)))"
  using assms
proof (induction api cur h V rule: walkLeagues.induct)
  case (1 api cur h V)
  show ?case
  proof (cases "\<exists>c. cur = Some c \<and> c \<noteq> [] \<and> length h < 10 \<and> c \<notin> V")
    case False
    then have "walkLeagues api cur h V = Completed h"
      by (intro walkLeagues_stop) (cases cur; auto)
    with "1.prems" show ?thesis by (simp add: outcomeHistory_def)
  next
    case True
    then obtain c where c: "cur = Some c" "c \<noteq> []" "length h < 10" "c \<notin> V" by blast
    show ?thesis
    proof (cases "api c")
      case (Resolved d)
      show ?thesis
      proof (cases d)
        case (Some dd)
        let ?n = "\<lparr>league_id = c, previousLeagueId = previous_league_id dd, season = data_season dd\<rparr>"
        have "chained (rev (h @ [?n]))"
          using "1.prems" c(1) by (auto simp add: chained_Cons hd_rev)
        moreover have "previous_league_id dd = previousLeagueId (last (h @ [?n]))"
          by simp
        ultimately have "chained (rev (outcomeHistory (walkLeagues api (previous_league_id dd) (h @ [?n]) (insert c V))))"
          using "1.IH"[OF c(1) _ Resolved Some] c by blast
        with c Resolved Some show ?thesis
          by (simp add: walkLeagues_request)
      qed (use c Resolved "1.prems" in \<open>simp add: walkLeagues_request outcomeHistory_def\<close>)
    qed (use c "1.prems" in \<open>simp_all add: walkLeagues_request outcomeHistory_def\<close>)
  qed
qed

lemma walkLeagues_bounded:
  assumes "length h \<le> 10" and "distinct (map league_id h)" and "league_id ` set h \<subseteq> V"
  shows "length (outcomeHistory (walkLeagues api cur h V)) \<le> 10
         \<and> distinct (map league_id (outcomeHistory (walkLeagues api cur h V)))"
  using assms
proof (induction api cur h V rule: walkLeagues.induct)
  case (1 api cur h V)
  show ?case
  proof (cases "\<exists>c. cur = Some c \<and> c \<noteq> [] \<and> length h < 10 \<and> c \<notin> V")
    case False
    then have "walkLeagues api cur h V = Completed h"
      by (intro walkLeagues_stop) (cases cur; auto)
    with "1.prems" show ?thesis by (simp add: outcomeHistory_def)
  next
    case True
    then obtain c where c: "cur = Some c" "c \<noteq> []" "length h < 10" "c \<notin> V" by blast
    show ?thesis
    proof (cases "api c")
      case (Resolved d)
      show ?thesis
      proof (cases d)
        case (Some dd)
        let ?n = "\<lparr>league_id = c, previousLeagueId = previous_league_id dd, season = data_season dd\<rparr>"
        have "length (h @ [?n]) \<le> 10" using c by simp
        moreover have "distinct (map league_id (h @ [?n]))"
          using c "1.prems" by auto
        moreover have "league_id ` set (h @ [?n]) \<subseteq> insert c V"
          using "1.prems" by auto
        ultimately have "length (outcomeHistory (walkLeagues api (previous_league_id dd) (h @ [?n]) (insert c V))) \<le> 10
          \<and> distinct (map league_id (outcomeHistory (walkLeagues api (previous_league_id dd) (h @ [?n]) (insert c V))))"
          using "1.IH"[OF c(1) _ Resolved Some] c by blast
        with c Resolved Some show ?thesis
          by (simp add: walkLeagues_request)
      qed (use c Resolved "1.prems" in \<open>simp add: walkLeagues_request outcomeHistory_def\<close>)
    qed (use c "1.prems" in \<open>simp_all add: walkLeagues_request outcomeHistory_def\<close>)
  qed
qed

lemma walkLeagues_first:
  assumes "outcomeHistory (walkLeagues api (Some l) [] V) \<noteq> []"
  shows "league_id (hd (outcomeHistory (walkLeagues api (Some l) [] V))) = l"
proof (cases "l \<noteq> [] \<and> l \<notin> V")
  case False
  then have "walkLeagues api (Some l) [] V = Completed []"
    by (intro walkLeagues_stop) auto
  with assms show ?thesis by (simp add: outcomeHistory_def)
next
  case True
  show ?thesis
  proof (cases "api l")
    case (Resolved d)
    show ?thesis
    proof (cases d)
      case (Some dd)
      let ?n = "\<lparr>league_id = l, previousLeagueId = previous_league_id dd, season = data_season dd\<rparr>"
      obtain t where "outcomeHistory (walkLeagues api (previous_league_id dd) ([] @ [?n]) (insert l V)) = ([] @ [?n]) @ t"
        using walkLeagues_grows by blast
      with True Resolved Some show ?thesis
        by (simp add: walkLeagues_request)
    qed (use True Resolved assms in \<open>simp add: walkLeagues_request outcomeHistory_def\<close>)
  qed (use True assms in \<open>simp_all add: walkLeagues_request outcomeHistory_def\<close>)
qed

text \<open>
  C4. Whatever the upstream answers, and so for chains of any length and for cyclic
  chains, the lineage walk returns (the function is total), the sequence it returns
  has at most 10 nodes, and no league identifier occurs in it twice.
\<close>

theorem lineage_walk_bounded:
  "length (getLeagueHistory api retry leagueId) \<le> 10
   \<and> distinct (map league_id (getLeagueHistory api retry leagueId))"
proof -
  have inv: "length (outcomeHistory (walkLeagues api (Some leagueId) [] {})) \<le> 10
       \<and> distinct (map league_id (outcomeHistory (walkLeagues api (Some leagueId) [] {})))"
    by (rule walkLeagues_bounded) simp_all
  show ?thesis
  proof (cases "walkLeagues api (Some leagueId) [] {}")
    case (Completed h)
    with inv show ?thesis
      by (simp add: getLeagueHistory_def outcomeHistory_def distinct_rev rev_map[symmetric])
  next
    case (Aborted h)
    with inv show ?thesis
      by (simp add: getLeagueHistory_def outcomeHistory_def rev_map[symmetric])
  next
    case (Threw h c)
    with inv show ?thesis
      by (auto simp add: getLeagueHistory_def outcomeHistory_def rev_map[symmetric]
            split: Fetched.splits option.splits)
  qed
qed

lemma lineage_walk_cycle_example:
  "getLeagueHistory cyclicLeagues Failed ''A'' =
     [\<lparr>league_id = ''B'', previousLeagueId = Some ''A'', season = ''2023''\<rparr>,
      \<lparr>league_id = ''A'', previousLeagueId = Some ''B'', season = ''2024''\<rparr>]"
  by code_simp

text \<open>
  C8, as the code has it. The sequence is returned oldest first: each node's
  previous-league pointer names the node before it, and the last node is the starting
  league. When the first request of the walk fails (other than by cancellation), the
  error handler requests the starting league once more; the result is a single node for
  the starting league, carrying the season of that second answer when it succeeds and
  an empty season label otherwise.
\<close>

theorem lineage_order_and_fallback:
  "chained (getLeagueHistory api retry leagueId)
   \<and> (getLeagueHistory api retry leagueId \<noteq> []
        \<longrightarrow> league_id (last (getLeagueHistory api retry leagueId)) = leagueId)
   \<and> (leagueId \<noteq> [] \<and> api leagueId = Failed
        \<longrightarrow> getLeagueHistory api retry leagueId =
            (case retry of
               Resolved (Some d) \<Rightarrow>
                 [\<lparr>league_id = leagueId, previousLeagueId = previous_league_id d,
                   season = data_season d\<rparr>]
             | _ \<Rightarrow> [\<lparr>league_id = leagueId, previousLeagueId = None, season = []\<rparr>]))"
proof -
  let ?w = "walkLeagues api (Some leagueId) [] {}"
  have ch: "chained (rev (outcomeHistory ?w))"
    by (rule walkLeagues_chained) simp_all
  have first: "outcomeHistory ?w \<noteq> [] \<Longrightarrow> league_id (hd (outcomeHistory ?w)) = leagueId"
    by (rule walkLeagues_first)
  have fail: "leagueId \<noteq> [] \<Longrightarrow> api leagueId = Failed \<Longrightarrow> ?w = Threw [] (Some leagueId)"
    by (simp add: walkLeagues_request)
  have A: "chained (getLeagueHistory api retry leagueId)"
    using ch by (cases ?w) (auto simp add: getLeagueHistory_def outcomeHistory_def
        split: Fetched.splits option.splits)
  have B: "getLeagueHistory api retry leagueId \<noteq> []
        \<longrightarrow> league_id (last (getLeagueHistory api retry leagueId)) = leagueId"
    using first by (cases ?w) (auto simp add: getLeagueHistory_def outcomeHistory_def last_rev
        split: Fetched.splits option.splits)
  have C: "leagueId \<noteq> [] \<and> api leagueId = Failed
        \<longrightarrow> getLeagueHistory api retry leagueId =
            (case retry of
               Resolved (Some d) \<Rightarrow>
                 [\<lparr>league_id = leagueId, previousLeagueId = previous_league_id d,
                   season = data_season d\<rparr>]
             | _ \<Rightarrow> [\<lparr>league_id = leagueId, previousLeagueId = None, season = []\<rparr>])"
    using fail by (auto simp add: getLeagueHistory_def split: Fetched.splits option.splits)
  from A B C show ?thesis by blast
qed

theorem lineage_order_and_fallback_witness:
  "getLeagueHistory sampleLeagues Failed ''L2'' =
     [\<lparr>league_id = ''L1'', previousLeagueId = None, season = ''2023''\<rparr>,
      \<lparr>league_id = ''L2'', previousLeagueId = Some ''L1'', season = ''2024''\<rparr>]
   \<and> chained (getLeagueHistory sampleLeagues Failed ''L2'')
   \<and> league_id (last (getLeagueHistory sampleLeagues Failed ''L2'')) = ''L2''
   \<and> sampleLeagues ''L9'' = Failed
   \<and> getLeagueHistory sampleLeagues Failed ''L9'' =
       [\<lparr>league_id = ''L9'', previousLeagueId = None, season = []\<rparr>]"
proof -
  have e: "getLeagueHistory sampleLeagues Failed ''L2'' =
     [\<lparr>league_id = ''L1'', previousLeagueId = None, season = ''2023''\<rparr>,
      \<lparr>league_id = ''L2'', previousLeagueId = Some ''L1'', season = ''2024''\<rparr>]"
    by code_simp
  have f: "sampleLeagues ''L9'' = Failed"
    by (simp add: sampleLeagues_def)
  from lineage_order_and_fallback [of sampleLeagues Failed "''L2''"]
       lineage_order_and_fallback [of sampleLeagues Failed "''L9''"] e f
  show ?thesis by simp
qed

text \<open>
  The claim as worded promises an empty season label whenever the first request fails.
  Here the first request fails and the second one succeeds: the node carries the
  season 2024.
\<close>

theorem lineage_fallback_counterexample:
  "sampleLeagues ''L9'' = Failed
   \<and> getLeagueHistory sampleLeagues
        (Resolved (Some \<lparr>data_season = ''2024'', previous_league_id = None\<rparr>)) ''L9''
      = [\<lparr>league_id = ''L9'', previousLeagueId = None, season = ''2024''\<rparr>]
   \<and> getLeagueHistory sampleLeagues
        (Resolved (Some \<lparr>data_season = ''2024'', previous_league_id = None\<rparr>)) ''L9''
      \<noteq> [\<lparr>league_id = ''L9'', previousLeagueId = None, season = []\<rparr>]"
  by code_simp

subsection \<open>Weekly transaction fetch\<close>

lemma fetchWeeks_done:
  "\<not> w \<le> 18 \<Longrightarrow> fetchWeeks lid aborted api w acc asked = (asked, Inr acc)"
  by (subst fetchWeeks.simps) simp

lemma fetchWeeks_resolved:
  assumes "w \<le> 18" and "\<not> aborted w" and "api w = Resolved d"
  shows "fetchWeeks lid aborted api w acc asked =
           (if weeklyList api w \<noteq> []
            then fetchWeeks lid aborted api (w + 1) (acc @ weeklyList api w) (asked @ [w])
            else if 4 < w then (asked @ [w], Inr acc)
            else fetchWeeks lid aborted api (w + 1) acc (asked @ [w]))"
  using assms
  by (subst fetchWeeks.simps) (auto simp add: weeklyList_def split: option.splits list.splits)

lemma find_upt_skip:
  assumes "\<not> P a" and "a < b"
  shows "find P [a..<b] = find P [Suc a..<b]"
  using assms by (simp add: upt_conv_Cons)

lemma find_upt_hit:
  assumes "P a" and "a < b"
  shows "find P [a..<b] = Some a"
  using assms by (simp add: upt_conv_Cons)

lemma find_upt_ge:
  "find P [a..<b] = Some k \<Longrightarrow> a \<le> k \<and> k < b"
  by (auto simp add: find_Some_iff)

lemma stopFrom_bounds: "w \<le> 18 \<Longrightarrow> w \<le> stopFrom api w \<and> stopFrom api w \<le> 18"
  by (auto simp add: stopFrom_def split: option.splits dest!: find_upt_ge)

lemma fetchWeeks_all_resolved:
  assumes "\<forall>k\<in>{1..18}. \<not> aborted k \<and> (\<exists>d. api k = Resolved d)"
    and "1 \<le> w" and "w \<le> 19"
  shows "fetchWeeks lid aborted api w acc asked =
           (asked @ [w..<Suc (stopFrom api w)],
            Inr (acc @ concat (map (weeklyList api) [w..<Suc (stopFrom api w)])))"
  using assms(2,3)
proof (induction "19 - w" arbitrary: w acc asked)
  case 0
  then have w: "w = 19" by simp
  have "stopFrom api 19 = 18" by (simp add: stopFrom_def)
  with w show ?case by (simp add: fetchWeeks_done)
next
  case (Suc n)
  then have w: "1 \<le> w" "w \<le> 18" by simp_all
  then have "w \<in> {1..18}" by simp
  with assms(1) have "\<not> aborted w \<and> (\<exists>d. api w = Resolved d)" by (rule bspec)
  then obtain d where res: "\<not> aborted w" "api w = Resolved d" by blast
  have unfold: "fetchWeeks lid aborted api w acc asked =
           (if weeklyList api w \<noteq> []
            then fetchWeeks lid aborted api (w + 1) (acc @ weeklyList api w) (asked @ [w])
            else if 4 < w then (asked @ [w], Inr acc)
            else fetchWeeks lid aborted api (w + 1) acc (asked @ [w]))"
    using w(2) res by (rule fetchWeeks_resolved)
  have IH: "\<And>acc asked. fetchWeeks lid aborted api (w + 1) acc asked =
           (asked @ [w + 1..<Suc (stopFrom api (w + 1))],
            Inr (acc @ concat (map (weeklyList api) [w + 1..<Suc (stopFrom api (w + 1))])))"
    using Suc.hyps(1)[of "w + 1"] Suc.hyps(2) w by simp
  from stopFrom_bounds[OF w(2)] have sb: "w \<le> stopFrom api w" "stopFrom api w \<le> 18" by simp_all
  show ?case
  proof (cases "emptyWeek api w \<and> 4 < w")
    case True
    then have "max w 5 = w" by simp
    with True w have "stopFrom api w = w"
      by (simp add: stopFrom_def find_upt_hit)
    with True unfold show ?thesis
      by (simp add: emptyWeek_def)
  next
    case False
    have same: "stopFrom api (w + 1) = stopFrom api w"
    proof (cases "4 < w")
      case True
      with False have ne: "\<not> emptyWeek api w" by simp
      from True have "max w 5 = w" "max (w + 1) 5 = Suc w" by simp_all
      with ne w show ?thesis
        by (simp add: stopFrom_def find_upt_skip)
    next
      case False
      then have "max w 5 = 5" "max (w + 1) 5 = 5" by simp_all
      then show ?thesis by (simp add: stopFrom_def)
    qed
    from sb(1)
    have upt: "[w..<Suc (stopFrom api w)] = w # [w + 1..<Suc (stopFrom api w)]"
      by (simp add: upt_conv_Cons)
    show ?thesis
    proof (cases "weeklyList api w = []")
      case True
      with False have "\<not> 4 < w" by (simp add: emptyWeek_def)
      with True unfold IH same upt show ?thesis by simp
    next
      case False
      with unfold IH same upt show ?thesis by simp
    qed
  qed
qed

lemma stopFrom_1: "stopFrom api 1 = stopWeek api"
  by (simp add: stopFrom_def stopWeek_def)

text \<open>
  C9, as the code has it. On a session-cache miss, with no abort and every weekly
  request answered, the fetch requests the weeks 1, 2, ... in order and stops at the
  first week after week 4 whose list is empty or missing (a single empty week is
  enough), or after week 18; it returns the concatenation of the weekly lists
  requested up to there.
\<close>

theorem weekly_fetch_stops_at_first_empty_week:
  assumes "\<forall>k\<in>{1..18}. \<not> aborted k \<and> (\<exists>d. api k = Resolved d)"
  shows "getLeagueTransactions None now leagueId aborted api =
           ([1..<Suc (stopWeek api)],
            Inr (concat (map (weeklyList api) [1..<Suc (stopWeek api)])))"
proof -
  have "(1::nat) \<le> 1" and "(1::nat) \<le> 19"
    by simp_all
  from fetchWeeks_all_resolved[OF assms this, of leagueId "[]" "[]"]
  have "fetchWeeks leagueId aborted api 1 [] [] =
           ([1..<Suc (stopWeek api)],
            Inr (concat (map (weeklyList api) [1..<Suc (stopWeek api)])))"
    unfolding stopFrom_1 append_Nil .
  then show ?thesis
    by (simp only: getLeagueTransactions_def option.case)
qed

theorem weekly_fetch_stops_at_first_empty_week_witness:
  "getLeagueTransactions None 0 ''L1'' neverAborted sampleWeeks =
     ([1, 2, 3, 4, 5], Inr [sampleTrade, sampleTrade, sampleTrade, sampleTrade])"
proof -
  have h: "\<forall>k\<in>{1..18}. \<not> neverAborted k \<and> (\<exists>d. sampleWeeks k = Resolved d)"
    by (simp add: neverAborted_def sampleWeeks_def)
  have s: "stopWeek sampleWeeks = 5"
    by code_simp
  have u: "[1..<Suc 5] = [1, 2, 3, 4, 5::nat]"
    by code_simp
  have c: "concat (map (weeklyList sampleWeeks) [1, 2, 3, 4, 5]) =
             [sampleTrade, sampleTrade, sampleTrade, sampleTrade]"
    by code_simp
  from weekly_fetch_stops_at_first_empty_week [OF h, of 0 "''L1''"] show ?thesis
    by (simp only: s u c)
qed

text \<open>
  The claim as worded lets the fetch stop early only after several consecutive empty
  weeks. Here week 4 has a trade, week 5 is the only empty week requested, and the
  fetch stops there: week 6, which has a trade, is never requested.
\<close>

theorem weekly_fetch_several_empty_counterexample:
  "fst (getLeagueTransactions None 0 ''L1'' neverAborted sampleWeeks) = [1, 2, 3, 4, 5]
   \<and> \<not> emptyWeek sampleWeeks 4
   \<and> \<not> emptyWeek sampleWeeks 6
   \<and> \<not> spec_stops_after_several_empty sampleWeeks
         (fst (getLeagueTransactions None 0 ''L1'' neverAborted sampleWeeks))"
  by code_simp

subsection \<open>Persistent cache\<close>

lemma cache_key_not_testKey: "CACHE_PREFIX @ key \<noteq> testKey"
  by (simp add: CACHE_PREFIX_def testKey_def)

lemma getItem_after_availability_test:
  "k \<noteq> testKey \<Longrightarrow> getItem (snd (isLocalStorageAvailable ls)) k = getItem ls k"
  by (simp add: isLocalStorageAvailable_def setItem_def removeItem_def getItem_def
        AList.delete_conv' AList.update_conv' split: option.splits)

lemma getItem_setItem:
  "setItem ls k v = Some ls' \<Longrightarrow> getItem ls' k = Some v"
  by (auto simp add: setItem_def getItem_def AList.update_conv' split: if_splits)

lemma getFromCache_absent:
  assumes "getItem ls (CACHE_PREFIX @ key) = None"
  shows "fst (getFromCache json now ls key) = None"
proof -
  have "getItem (snd (isLocalStorageAvailable ls)) (CACHE_PREFIX @ key) = None"
    using assms by (simp add: getItem_after_availability_test cache_key_not_testKey)
  then show ?thesis
    by (cases "isLocalStorageAvailable ls") (auto simp add: getFromCache_def split: bool.splits)
qed

lemma saveToCache_stored:
  assumes "fst (isLocalStorageAvailable ls)"
    and "stringify json \<lparr>item_timestamp = t0, item_data = v, item_duration = d\<rparr> = Some text"
    and "setItem (snd (isLocalStorageAvailable ls)) (CACHE_PREFIX @ key) text \<noteq> None"
  shows "getItem (saveToCache json t0 ls key v d) (CACHE_PREFIX @ key) = Some text"
proof -
  obtain ls1 where a: "isLocalStorageAvailable ls = (True, ls1)"
    using assms(1) by (cases "isLocalStorageAvailable ls") auto
  with assms(3) obtain ls2 where s: "setItem ls1 (CACHE_PREFIX @ key) text = Some ls2"
    by auto
  from a s assms(2) have "saveToCache json t0 ls key v d = ls2"
    by (simp add: saveToCache_def)
  with s show ?thesis
    by (simp add: getItem_setItem)
qed

lemma getFromCache_present:
  assumes "fst (isLocalStorageAvailable ls)"
    and "getItem ls (CACHE_PREFIX @ key) = Some text" and "text \<noteq> []"
    and "parse json text = Some item"
  shows "fst (getFromCache json now ls key) =
           (if now - item_timestamp item < item_duration item then Some (item_data item) else None)"
proof -
  obtain ls1 where a: "isLocalStorageAvailable ls = (True, ls1)"
    using assms(1) by (cases "isLocalStorageAvailable ls") auto
  then have "getItem ls1 (CACHE_PREFIX @ key) = Some text"
    using getItem_after_availability_test[of "CACHE_PREFIX @ key" ls] assms(2)
    by (simp add: cache_key_not_testKey)
  with a assms(3,4) show ?thesis
    by (simp add: getFromCache_def)
qed

text \<open>
  C10, as the code has it. Let \<^verbatim>\<open>localStorage\<close> pass the availability test at the save
  and at the read, let the cache item survive \<^verbatim>\<open>JSON.stringify\<close> and \<^verbatim>\<open>JSON.parse\<close>
  unchanged, and let the storage accept the entry (the write does not exceed the
  quota). Then a \<^verbatim>\<open>getFromCache\<close> right after \<^verbatim>\<open>saveToCache(key, v, d)\<close> returns \<open>v\<close> when
  less than \<open>d\<close> milliseconds have passed and null otherwise; and a key with no entry in
  the storage reads as null.
\<close>

theorem cache_round_trip:
  assumes "fst (isLocalStorageAvailable ls)"
    and "stringify json \<lparr>item_timestamp = t0, item_data = v, item_duration = d\<rparr> = Some text"
    and "text \<noteq> []"
    and "parse json text = Some \<lparr>item_timestamp = t0, item_data = v, item_duration = d\<rparr>"
    and "setItem (snd (isLocalStorageAvailable ls)) (CACHE_PREFIX @ key) text \<noteq> None"
    and "fst (isLocalStorageAvailable (saveToCache json t0 ls key v d))"
  shows "fst (getFromCache json t1 (saveToCache json t0 ls key v d) key)
           = (if t1 - t0 < d then Some v else None)
         \<and> (getItem ls' (CACHE_PREFIX @ key') = None
              \<longrightarrow> fst (getFromCache json t1 ls' key') = None)"
proof -
  have "getItem (saveToCache json t0 ls key v d) (CACHE_PREFIX @ key) = Some text"
    using assms(1,2,5) by (rule saveToCache_stored)
  with assms(6) have "fst (getFromCache json t1 (saveToCache json t0 ls key v d) key) =
      (if t1 - item_timestamp \<lparr>item_timestamp = t0, item_data = v, item_duration = d\<rparr>
            < item_duration \<lparr>item_timestamp = t0, item_data = v, item_duration = d\<rparr>
       then Some (item_data \<lparr>item_timestamp = t0, item_data = v, item_duration = d\<rparr>)
       else None)"
    using assms(3,4) by (rule getFromCache_present)
  then show ?thesis
    by (simp add: getFromCache_absent)
qed


theorem cache_round_trip_witness:
  "fst (getFromCache intJson 1499 (saveToCache intJson 1000 roomyStorage ''roster'' 7 500) ''roster'')
     = Some 7
   \<and> fst (getFromCache intJson 1500 (saveToCache intJson 1000 roomyStorage ''roster'' 7 500) ''roster'')
     = None
   \<and> getItem roomyStorage (CACHE_PREFIX @ ''other'') = None
   \<and> fst (getFromCache intJson 1499 roomyStorage ''other'') = None"
proof -
  have h1: "fst (isLocalStorageAvailable roomyStorage)"
    by code_simp
  have h2: "stringify intJson \<lparr>item_timestamp = 1000, item_data = 7, item_duration = 500\<rparr>
              = Some sampleItemText"
    by code_simp
  have h3: "sampleItemText \<noteq> []"
    by code_simp
  have h4: "parse intJson sampleItemText
              = Some \<lparr>item_timestamp = 1000, item_data = 7, item_duration = 500\<rparr>"
    by code_simp
  have h5: "setItem (snd (isLocalStorageAvailable roomyStorage)) (CACHE_PREFIX @ ''roster'')
              sampleItemText \<noteq> None"
    by code_simp
  have h6: "fst (isLocalStorageAvailable (saveToCache intJson 1000 roomyStorage ''roster'' 7 500))"
    by code_simp
  have h7: "getItem roomyStorage (CACHE_PREFIX @ ''other'') = None"
    by code_simp
  from cache_round_trip [OF h1 h2 h3 h4 h5 h6, of 1499 roomyStorage "''other''"]
       cache_round_trip [OF h1 h2 h3 h4 h5 h6, of 1500 roomyStorage "''other''"] h7
  show ?thesis
    by simp
qed

text \<open>
  The claim as worded asks only that \<^verbatim>\<open>localStorage\<close> be available. With a quota of 50
  characters the availability test (40 characters) passes before and after the save,
  the item survives the JSON round trip and the duration is positive, yet the entry
  (68 characters) is refused, the error is caught, and a read one millisecond later
  returns null.
\<close>

theorem cache_round_trip_counterexample:
  "fst (isLocalStorageAvailable tightStorage)
   \<and> fst (isLocalStorageAvailable (saveToCache intJson 1000 tightStorage ''roster'' 7 500))
   \<and> Option.bind (stringify intJson \<lparr>item_timestamp = 1000, item_data = 7, item_duration = 500\<rparr>)
        (parse intJson)
      = Some \<lparr>item_timestamp = 1000, item_data = 7, item_duration = 500\<rparr>
   \<and> (0::int) < 500 \<and> (1001::int) - 1000 < 500
   \<and> fst (getFromCache intJson 1001 (saveToCache intJson 1000 tightStorage ''roster'' 7 500) ''roster'')
      = None"
  by code_simp

subsection \<open>Acquisition fuser\<close>

lemma foldl_invariant:
  assumes "P s" and "\<And>t x. P t \<Longrightarrow> P (f t x)"
  shows "P (foldl f s xs)"
  using assms(1) by (induction xs arbitrary: s) (simp_all add: assms(2))

lemma foldl_mark_all:
  "foldl (\<lambda>m k. m(k \<mapsto> u)) m0 ks p = (if p \<in> set ks then Some u else m0 p)"
  by (induction ks arbitrary: m0) auto

lemma initialAcquisitions_apply:
  "initialAcquisitions roster p =
     (if p \<in> set (players roster)
      then Some \<lparr>acq_type = ''Unknown'', details = [], timestamp = Some 0\<rparr>
      else None)"
  by (simp add: initialAcquisitions_def foldl_mark_all)

lemma currentDraftType_cases:
  "currentDraftType redraft scan historicalSeasonMeta info = ''Startup Draft''
   \<or> currentDraftType redraft scan historicalSeasonMeta info = ''Rookie Draft''"
  by (simp add: currentDraftType_def)

lemma currentDraftType_redraft:
  "currentDraftType True scan historicalSeasonMeta info = ''Startup Draft''"
  by (simp add: currentDraftType_def)

lemma transactionRecord_type:
  "acq_type (transactionRecord host transaction)
     \<in> {''Trade'', ''Waiver Wire'', ''Free Agency'', ''Unknown Transaction''}"
  by (simp add: transactionRecord_def Let_def)

lemma applyPick_known:
  assumes "draftType \<noteq> ''Unknown''" and "knownRecord (fst st) p"
  shows "knownRecord (fst (applyPick host leagueDetails draftType historicalSeasonMeta st pick)) p"
  using assms by (auto simp add: applyPick_def knownRecord_def)

lemma applyDraft_known:
  assumes "knownRecord (fst st) p"
  shows "knownRecord (fst (applyDraft host leagueDetails scan userId historicalSeasonMeta st draftData)) p"
proof -
  let ?ty = "currentDraftType (isRedraft leagueDetails) scan historicalSeasonMeta (draftInfo draftData)"
  have ty: "?ty \<noteq> ''Unknown''"
    using currentDraftType_cases[of "isRedraft leagueDetails" scan historicalSeasonMeta "draftInfo draftData"]
    by auto
  have "knownRecord (fst (foldl (applyPick host leagueDetails ?ty historicalSeasonMeta) st ps)) p" for ps
    by (rule foldl_invariant[where P = "\<lambda>t. knownRecord (fst t) p"])
       (simp_all add: assms applyPick_known[OF ty])
  with assms show ?thesis
    by (simp add: applyDraft_def Let_def)
qed

lemma applyAdd_known:
  assumes "knownRecord acquisitions p"
  shows "knownRecord (applyAdd host roster transaction acquisitions q) p"
proof -
  have "acq_type (transactionRecord host transaction) \<noteq> ''Unknown''"
    using transactionRecord_type[of host transaction] by auto
  with assms show ?thesis
    by (auto simp add: applyAdd_def knownRecord_def)
qed

lemma applyTransaction_known:
  assumes "knownRecord acquisitions p"
  shows "knownRecord (applyTransaction host roster userRosterThisSeason acquisitions transaction) p"
proof -
  have "knownRecord (foldl (applyAdd host roster transaction) acquisitions qs) p" for qs
    by (rule foldl_invariant[where P = "\<lambda>t. knownRecord t p"]) (simp_all add: assms applyAdd_known)
  with assms show ?thesis
    by (simp add: applyTransaction_def split: option.splits)
qed

lemma fuseSeason_known:
  assumes "knownRecord (fst st) p"
  shows "knownRecord (fst (fuseSeason host leagueDetails scan leagueHistoryData userId roster st histData)) p"
proof (cases "data_roster histData")
  case None
  with assms show ?thesis by (simp add: fuseSeason_def)
next
  case (Some r)
  show ?thesis
  proof (cases "seasonMeta leagueHistoryData histData")
    case None
    with Some assms show ?thesis by (simp add: fuseSeason_def)
  next
    case meta: (Some m)
    have d: "knownRecord (fst (foldl (applyDraft host leagueDetails scan userId m) st ds)) p" for ds
      by (rule foldl_invariant[where P = "\<lambda>t. knownRecord (fst t) p"])
         (simp_all add: assms applyDraft_known)
    have "knownRecord (foldl (applyTransaction host roster r) a ts) p" if "knownRecord a p" for a ts
      by (rule foldl_invariant[where P = "\<lambda>t. knownRecord t p"])
         (simp_all add: that applyTransaction_known)
    with d Some meta show ?thesis
      by (simp add: fuseSeason_def Let_def)
  qed
qed

text \<open>
  C7. Once a player's record has a type other than \<^verbatim>\<open>Unknown\<close>, no event of the fusion
  sets it back: not a draft pick (whose type is the classifier's \<^verbatim>\<open>Startup Draft\<close> or
  \<^verbatim>\<open>Rookie Draft\<close>), not an added player of a transaction (whose type is \<^verbatim>\<open>Trade\<close>,
  \<^verbatim>\<open>Waiver Wire\<close>, \<^verbatim>\<open>Free Agency\<close> or \<^verbatim>\<open>Unknown Transaction\<close>, a label of its own), and
  so no run of the season loop over any list of seasons from any state.
\<close>

theorem record_kind_never_reverts_to_unknown:
  assumes "acquisitions playerId = Some current" and "acq_type current \<noteq> ''Unknown''"
  shows "knownRecord
           (fst (applyPick host leagueDetails
                   (currentDraftType redraft scan historicalSeasonMeta info)
                   historicalSeasonMeta (acquisitions, n) pick)) playerId
         \<and> knownRecord (applyAdd host roster transaction acquisitions addedId) playerId
         \<and> knownRecord
             (fst (foldl (fuseSeason host leagueDetails scan leagueHistoryData userId roster)
                     (acquisitions, n) seasons)) playerId"
proof -
  from assms have k0: "knownRecord acquisitions playerId"
    by (simp add: knownRecord_def)
  then have k: "knownRecord (fst (acquisitions, n)) playerId"
    by simp
  have ty: "currentDraftType redraft scan historicalSeasonMeta info \<noteq> ''Unknown''"
    using currentDraftType_cases[of redraft scan historicalSeasonMeta info] by auto
  have A: "knownRecord
           (fst (applyPick host leagueDetails
                   (currentDraftType redraft scan historicalSeasonMeta info)
                   historicalSeasonMeta (acquisitions, n) pick)) playerId"
    using ty k by (rule applyPick_known)
  have B: "knownRecord (applyAdd host roster transaction acquisitions addedId) playerId"
    using k0 by (rule applyAdd_known)
  have C: "knownRecord
             (fst (foldl (fuseSeason host leagueDetails scan leagueHistoryData userId roster)
                     (acquisitions, n) seasons)) playerId"
    by (rule foldl_invariant[where P = "\<lambda>t. knownRecord (fst t) playerId"])
       (simp_all add: k0 fuseSeason_known)
  from A B C show ?thesis by blast
qed

theorem record_kind_never_reverts_to_unknown_witness:
  "fst (fusedOf sampleHost dynastyLeague oneSeason sampleUpstream ''U1'' sampleRoster) ''P1''
     = Some \<lparr>acq_type = ''Startup Draft'', details = ''1.03'', timestamp = Some 1685577600000\<rparr>
   \<and> knownRecord
        (fst (applyPick sampleHost dynastyLeague
                (currentDraftType False (scanOf sampleUpstream ''U1'' twoSeasons)
                   \<lparr>league_id = ''L2'', previousLeagueId = Some ''L1'', season = ''2024''\<rparr>
                   \<lparr>draft_id = ''2001'', draft_type = Some ''snake''\<rparr>)
                \<lparr>league_id = ''L2'', previousLeagueId = Some ''L1'', season = ''2024''\<rparr>
                (fst (fusedOf sampleHost dynastyLeague oneSeason sampleUpstream ''U1'' sampleRoster), 2)
                pickP1)) ''P1''
   \<and> knownRecord
        (applyAdd sampleHost sampleRoster sampleTrade
           (fst (fusedOf sampleHost dynastyLeague oneSeason sampleUpstream ''U1'' sampleRoster)) ''P1'')
        ''P1''
   \<and> knownRecord
        (fst (foldl (fuseSeason sampleHost dynastyLeague (scanOf sampleUpstream ''U1'' twoSeasons)
                       twoSeasons ''U1'' sampleRoster)
                (fst (fusedOf sampleHost dynastyLeague oneSeason sampleUpstream ''U1'' sampleRoster), 2)
                (allHistoricalSeasonData sampleUpstream ''U1'' twoSeasons)))
        ''P1''"
proof -
  have h1: "fst (fusedOf sampleHost dynastyLeague oneSeason sampleUpstream ''U1'' sampleRoster) ''P1''
     = Some \<lparr>acq_type = ''Startup Draft'', details = ''1.03'', timestamp = Some 1685577600000\<rparr>"
    by code_simp
  have h2: "acq_type \<lparr>acq_type = ''Startup Draft'', details = ''1.03'',
                      timestamp = Some 1685577600000\<rparr> \<noteq> ''Unknown''"
    by simp
  note inst = record_kind_never_reverts_to_unknown
    [where acquisitions = "fst (fusedOf sampleHost dynastyLeague oneSeason sampleUpstream ''U1'' sampleRoster)"
       and playerId = "''P1''"
       and current = "\<lparr>acq_type = ''Startup Draft'', details = ''1.03'', timestamp = Some 1685577600000\<rparr>"
       and host = sampleHost and leagueDetails = dynastyLeague and redraft = False
       and scan = "scanOf sampleUpstream ''U1'' twoSeasons"
       and historicalSeasonMeta = "\<lparr>league_id = ''L2'', previousLeagueId = Some ''L1'', season = ''2024''\<rparr>"
       and info = "\<lparr>draft_id = ''2001'', draft_type = Some ''snake''\<rparr>"
       and n = 2 and pick = pickP1 and roster = sampleRoster and transaction = sampleTrade
       and addedId = "''P1''" and leagueHistoryData = twoSeasons and userId = "''U1''"
       and seasons = "allHistoricalSeasonData sampleUpstream ''U1'' twoSeasons"]
  from inst [OF h1 h2] h1 show ?thesis
    by blast
qed

lemma transactionOverwrites_spec_on_epoch_times:
  assumes "0 \<le> createdAt" and "timestamp current = Some s" and "0 \<le> s"
  shows "transactionOverwrites (Some current) createdAt = spec_transaction_overwrites current createdAt"
  using assms
  by (auto simp add: transactionOverwrites_def spec_transaction_overwrites_def falsyNumber_def
        jsGreater_def)

text \<open>
  C3, as the code has it. For a player of the roster who has a record, a transaction
  that adds the player replaces the record exactly when the record's type is
  \<^verbatim>\<open>Unknown\<close>, or the transaction's time is not zero and the record's timestamp is zero
  or NaN or smaller than the transaction's time; otherwise the record stays as it is.
  When both times are non-negative numbers this is the rule of the specification:
  \<^verbatim>\<open>Unknown\<close>, or strictly later.
\<close>

theorem transaction_overwrite_rule:
  assumes "playerId \<in> set (players roster)" and "acquisitions playerId = Some current"
  shows "applyAdd host roster transaction acquisitions playerId playerId =
           (if acq_type current = ''Unknown''
               \<or> (created transaction \<noteq> 0
                   \<and> (timestamp current = None \<or> timestamp current = Some 0
                       \<or> jsGreater (created transaction) (timestamp current)))
            then Some (transactionRecord host transaction)
            else Some current)
         \<and> (0 \<le> created transaction \<and> (\<exists>s. timestamp current = Some s \<and> 0 \<le> s)
              \<longrightarrow> applyAdd host roster transaction acquisitions playerId playerId =
                    (if spec_transaction_overwrites current (created transaction)
                     then Some (transactionRecord host transaction)
                     else Some current))"
proof -
  have A: "applyAdd host roster transaction acquisitions playerId playerId =
           (if transactionOverwrites (Some current) (created transaction)
            then Some (transactionRecord host transaction)
            else Some current)"
    using assms by (simp add: applyAdd_def)
  have B: "transactionOverwrites (Some current) (created transaction) =
           (acq_type current = ''Unknown''
               \<or> (created transaction \<noteq> 0
                   \<and> (timestamp current = None \<or> timestamp current = Some 0
                       \<or> jsGreater (created transaction) (timestamp current))))"
    by (simp add: transactionOverwrites_def falsyNumber_def)
  have C: "0 \<le> created transaction \<and> (\<exists>s. timestamp current = Some s \<and> 0 \<le> s)
              \<longrightarrow> transactionOverwrites (Some current) (created transaction)
                    = spec_transaction_overwrites current (created transaction)"
    using transactionOverwrites_spec_on_epoch_times by blast
  from A B C show ?thesis
    by simp
qed

theorem transaction_overwrite_rule_witness:
  "applyAdd sampleHost sampleRoster sampleTrade (initialAcquisitions sampleRoster) ''P1'' ''P1''
     = Some \<lparr>acq_type = ''Trade'', details = ''Acquired on Nov 14, 2023'',
             timestamp = Some 1700000000000\<rparr>
   \<and> applyAdd sampleHost sampleRoster earlierWaiver
        (applyAdd sampleHost sampleRoster sampleTrade (initialAcquisitions sampleRoster) ''P1'')
        ''P1'' ''P1''
     = Some \<lparr>acq_type = ''Trade'', details = ''Acquired on Nov 14, 2023'',
             timestamp = Some 1700000000000\<rparr>"
proof -
  have p: "''P1'' \<in> set (players sampleRoster)"
    by (simp add: sampleRoster_def)
  have a1: "initialAcquisitions sampleRoster ''P1''
              = Some \<lparr>acq_type = ''Unknown'', details = [], timestamp = Some 0\<rparr>"
    by code_simp
  have t1: "transactionRecord sampleHost sampleTrade
              = \<lparr>acq_type = ''Trade'', details = ''Acquired on Nov 14, 2023'',
                 timestamp = Some 1700000000000\<rparr>"
    by code_simp
  from transaction_overwrite_rule
         [where acquisitions = "initialAcquisitions sampleRoster" and playerId = "''P1''"
            and roster = sampleRoster and host = sampleHost and transaction = sampleTrade
            and current = "\<lparr>acq_type = ''Unknown'', details = [], timestamp = Some 0\<rparr>"] p a1
  have r1: "applyAdd sampleHost sampleRoster sampleTrade (initialAcquisitions sampleRoster) ''P1'' ''P1''
     = Some \<lparr>acq_type = ''Trade'', details = ''Acquired on Nov 14, 2023'',
             timestamp = Some 1700000000000\<rparr>"
    by (simp add: t1)
  have c: "created earlierWaiver = 1690000000000"
    by (simp add: earlierWaiver_def)
  from transaction_overwrite_rule
         [where acquisitions = "applyAdd sampleHost sampleRoster sampleTrade
                                  (initialAcquisitions sampleRoster) ''P1''"
            and playerId = "''P1''" and roster = sampleRoster and host = sampleHost
            and transaction = earlierWaiver
            and current = "\<lparr>acq_type = ''Trade'', details = ''Acquired on Nov 14, 2023'',
                             timestamp = Some 1700000000000\<rparr>"] p r1
  have "applyAdd sampleHost sampleRoster earlierWaiver
        (applyAdd sampleHost sampleRoster sampleTrade (initialAcquisitions sampleRoster) ''P1'')
        ''P1'' ''P1''
     = Some \<lparr>acq_type = ''Trade'', details = ''Acquired on Nov 14, 2023'',
             timestamp = Some 1700000000000\<rparr>"
    by (simp add: c jsGreater_def)
  with r1 show ?thesis
    by simp
qed

text \<open>
  The rule as the specification words it fails on a record without a usable timestamp.
  A pick drafted in a season whose label is empty (the label the lineage walker gives
  its fallback node) gets the timestamp NaN; such a record is not \<^verbatim>\<open>Unknown\<close> and no
  time is greater than NaN, yet a trade replaces it.
\<close>

theorem transaction_overwrite_counterexample:
  "fst (applyPick sampleHost dynastyLeague ''Rookie Draft''
          \<lparr>league_id = ''L1'', previousLeagueId = None, season = []\<rparr>
          (initialAcquisitions sampleRoster, 0) pickP1) ''P1''
     = Some \<lparr>acq_type = ''Rookie Draft'', details = '' 1.03'', timestamp = None\<rparr>
   \<and> \<not> spec_transaction_overwrites
         \<lparr>acq_type = ''Rookie Draft'', details = '' 1.03'', timestamp = None\<rparr>
         (created sampleTrade)
   \<and> applyAdd sampleHost sampleRoster sampleTrade
        (fst (applyPick sampleHost dynastyLeague ''Rookie Draft''
                \<lparr>league_id = ''L1'', previousLeagueId = None, season = []\<rparr>
                (initialAcquisitions sampleRoster, 0) pickP1))
        ''P1'' ''P1''
     = Some \<lparr>acq_type = ''Trade'', details = ''Acquired on Nov 14, 2023'',
             timestamp = Some 1700000000000\<rparr>"
  by code_simp

lemma applyPick_changed:
  assumes "fst (applyPick host leagueDetails draftType historicalSeasonMeta st pick) p = Some r"
  shows "fst st p = Some r \<or> acq_type r = draftType"
  using assms by (auto simp add: applyPick_def split: if_splits)

lemma applyDraft_changed:
  assumes "fst (applyDraft host leagueDetails scan userId historicalSeasonMeta st draftData) p = Some r"
  shows "fst st p = Some r
         \<or> acq_type r = currentDraftType (isRedraft leagueDetails) scan historicalSeasonMeta
                           (draftInfo draftData)"
proof -
  let ?ty = "currentDraftType (isRedraft leagueDetails) scan historicalSeasonMeta (draftInfo draftData)"
  have "\<forall>q c. fst (foldl (applyPick host leagueDetails ?ty historicalSeasonMeta) st ps) q = Some c
          \<longrightarrow> fst st q = Some c \<or> acq_type c = ?ty" for ps
    by (rule foldl_invariant[where P = "\<lambda>t. \<forall>q c. fst t q = Some c \<longrightarrow> fst st q = Some c \<or> acq_type c = ?ty"])
       (auto dest: applyPick_changed)
  with assms show ?thesis
    by (auto simp add: applyDraft_def Let_def split: if_splits)
qed

lemma applyDraft_noRookie:
  assumes "isRedraft leagueDetails" and "noRookieDraft (fst st)"
  shows "noRookieDraft (fst (applyDraft host leagueDetails scan userId historicalSeasonMeta st draftData))"
  unfolding noRookieDraft_def
proof (intro allI impI)
  fix p r
  assume "fst (applyDraft host leagueDetails scan userId historicalSeasonMeta st draftData) p = Some r"
  then have "fst st p = Some r
         \<or> acq_type r = currentDraftType (isRedraft leagueDetails) scan historicalSeasonMeta
                           (draftInfo draftData)"
    by (rule applyDraft_changed)
  with assms show "acq_type r \<noteq> ''Rookie Draft''"
    by (auto simp add: noRookieDraft_def currentDraftType_redraft)
qed

lemma applyAdd_noRookie:
  assumes "noRookieDraft acquisitions"
  shows "noRookieDraft (applyAdd host roster transaction acquisitions q)"
proof -
  have "acq_type (transactionRecord host transaction) \<noteq> ''Rookie Draft''"
    using transactionRecord_type[of host transaction] by auto
  with assms show ?thesis
    by (auto simp add: applyAdd_def noRookieDraft_def)
qed

lemma applyTransaction_noRookie:
  assumes "noRookieDraft acquisitions"
  shows "noRookieDraft (applyTransaction host roster userRosterThisSeason acquisitions transaction)"
proof -
  have "noRookieDraft (foldl (applyAdd host roster transaction) acquisitions qs)" for qs
    by (rule foldl_invariant[where P = noRookieDraft]) (simp_all add: assms applyAdd_noRookie)
  with assms show ?thesis
    by (simp add: applyTransaction_def split: option.splits)
qed

lemma fuseSeason_noRookie:
  assumes "isRedraft leagueDetails" and "noRookieDraft (fst st)"
  shows "noRookieDraft (fst (fuseSeason host leagueDetails scan leagueHistoryData userId roster st histData))"
proof (cases "data_roster histData")
  case None
  with assms show ?thesis by (simp add: fuseSeason_def)
next
  case (Some r)
  show ?thesis
  proof (cases "seasonMeta leagueHistoryData histData")
    case None
    with Some assms show ?thesis by (simp add: fuseSeason_def)
  next
    case meta: (Some m)
    have d: "noRookieDraft (fst (foldl (applyDraft host leagueDetails scan userId m) st ds))" for ds
      by (rule foldl_invariant[where P = "\<lambda>t. noRookieDraft (fst t)"])
         (simp_all add: assms applyDraft_noRookie)
    have "noRookieDraft (foldl (applyTransaction host roster r) a ts)" if "noRookieDraft a" for a ts
      by (rule foldl_invariant[where P = noRookieDraft]) (simp_all add: that applyTransaction_noRookie)
    with d Some meta show ?thesis
      by (simp add: fuseSeason_def Let_def)
  qed
qed

lemma fuseLineage_noRookie:
  assumes "isRedraft leagueDetails"
  shows "noRookieDraft (fst (fuseLineage host leagueDetails scan leagueHistoryData userId roster seasons))"
proof -
  have "noRookieDraft (fst (initialAcquisitions roster, 0::nat))"
    by (simp add: noRookieDraft_def initialAcquisitions_apply)
  then show ?thesis
    unfolding fuseLineage_def
    by (rule foldl_invariant[where P = "\<lambda>t. noRookieDraft (fst t)"])
       (simp add: assms fuseSeason_noRookie)
qed

lemma previousOwner_noRookie:
  "noRookieDraft acquisitions \<Longrightarrow> noRookieDraft (previousOwner acquisitions)"
  by (auto simp add: noRookieDraft_def previousOwner_def split: option.splits if_splits)

text \<open>
  C6. In a league whose settings type is 0 every draft is classified
  \<^verbatim>\<open>Startup Draft\<close>, whatever the lineage scan found and whichever season and draft it
  is; every record that a draft writes has that type; and on a cache miss no record of
  the result has the type \<^verbatim>\<open>Rookie Draft\<close>.
\<close>

theorem redraft_picks_are_startup:
  assumes "isRedraft leagueDetails"
  shows "currentDraftType (isRedraft leagueDetails) scan historicalSeasonMeta info = ''Startup Draft''
         \<and> (\<forall>playerId written.
               fst (applyDraft host leagueDetails scan userId historicalSeasonMeta st draftData) playerId
                 = Some written
               \<longrightarrow> fst st playerId = Some written \<or> acq_type written = ''Startup Draft'')
         \<and> noRookieDraft
             (getPlayerAcquisitions host None leagueDetails leagueHistoryData up userId roster)"
proof -
  have A: "currentDraftType (isRedraft leagueDetails) scan historicalSeasonMeta info = ''Startup Draft''"
    using assms by (simp add: currentDraftType_redraft)
  have B: "\<forall>playerId written.
               fst (applyDraft host leagueDetails scan userId historicalSeasonMeta st draftData) playerId
                 = Some written
               \<longrightarrow> fst st playerId = Some written \<or> acq_type written = ''Startup Draft''"
    using assms applyDraft_changed[of host leagueDetails scan userId historicalSeasonMeta st draftData]
    by (auto simp add: currentDraftType_redraft)
  have "noRookieDraft (initialAcquisitions roster)"
    by (simp add: noRookieDraft_def initialAcquisitions_apply)
  then have C: "noRookieDraft
             (getPlayerAcquisitions host None leagueDetails leagueHistoryData up userId roster)"
    using assms by (simp add: getPlayerAcquisitions_def Let_def fuseLineage_noRookie previousOwner_noRookie)
  from A B C show ?thesis by blast
qed

theorem redraft_picks_are_startup_witness:
  "isRedraft redraftLeague
   \<and> getPlayerAcquisitions sampleHost None redraftLeague twoSeasons sampleUpstream ''U1'' sampleRoster
        ''P2''
     = Some \<lparr>acq_type = ''Startup Draft'', details = ''1.05'', timestamp = Some 1717200000000\<rparr>
   \<and> getPlayerAcquisitions sampleHost None dynastyLeague twoSeasons sampleUpstream ''U1'' sampleRoster
        ''P2''
     = Some \<lparr>acq_type = ''Rookie Draft'', details = ''2024 1.05'', timestamp = Some 1717200000000\<rparr>
   \<and> noRookieDraft
        (getPlayerAcquisitions sampleHost None redraftLeague twoSeasons sampleUpstream ''U1''
           sampleRoster)"
proof -
  have h: "isRedraft redraftLeague"
    by code_simp
  have e1: "getPlayerAcquisitions sampleHost None redraftLeague twoSeasons sampleUpstream ''U1''
              sampleRoster ''P2''
     = Some \<lparr>acq_type = ''Startup Draft'', details = ''1.05'', timestamp = Some 1717200000000\<rparr>"
    by code_simp
  have e2: "getPlayerAcquisitions sampleHost None dynastyLeague twoSeasons sampleUpstream ''U1''
              sampleRoster ''P2''
     = Some \<lparr>acq_type = ''Rookie Draft'', details = ''2024 1.05'', timestamp = Some 1717200000000\<rparr>"
    by code_simp
  from redraft_picks_are_startup
         [where leagueDetails = redraftLeague and host = sampleHost
            and leagueHistoryData = twoSeasons and up = sampleUpstream and userId = "''U1''"
            and roster = sampleRoster, OF h] h e1 e2
  show ?thesis
    by blast
qed

lemma applyPick_keeps:
  "p \<in> dom (fst st) \<Longrightarrow> p \<in> dom (fst (applyPick host leagueDetails draftType historicalSeasonMeta st pick))"
  by (auto simp add: applyPick_def)

lemma applyDraft_keeps:
  assumes "p \<in> dom (fst st)"
  shows "p \<in> dom (fst (applyDraft host leagueDetails scan userId historicalSeasonMeta st draftData))"
proof -
  have "p \<in> dom (fst (foldl (applyPick host leagueDetails ty historicalSeasonMeta) st ps))" for ps ty
    by (rule foldl_invariant[where P = "\<lambda>t. p \<in> dom (fst t)"]) (simp_all add: assms applyPick_keeps)
  with assms show ?thesis
    by (simp add: applyDraft_def Let_def)
qed

lemma applyAdd_keeps:
  "p \<in> dom acquisitions \<Longrightarrow> p \<in> dom (applyAdd host roster transaction acquisitions q)"
  by (auto simp add: applyAdd_def)

lemma applyAdd_dom:
  "dom acquisitions \<subseteq> dom (applyAdd host roster transaction acquisitions q)
   \<and> dom (applyAdd host roster transaction acquisitions q) \<subseteq> dom acquisitions \<union> set (players roster)"
  by (auto simp add: applyAdd_def)

lemma applyTransaction_keeps:
  assumes "p \<in> dom acquisitions"
  shows "p \<in> dom (applyTransaction host roster userRosterThisSeason acquisitions transaction)"
proof -
  have "p \<in> dom (foldl (applyAdd host roster transaction) acquisitions qs)" for qs
    by (rule foldl_invariant[where P = "\<lambda>t. p \<in> dom t"]) (simp_all add: assms applyAdd_keeps)
  with assms show ?thesis
    by (simp add: applyTransaction_def split: option.splits)
qed

lemma fuseSeason_keeps:
  assumes "p \<in> dom (fst st)"
  shows "p \<in> dom (fst (fuseSeason host leagueDetails scan leagueHistoryData userId roster st histData))"
proof (cases "data_roster histData")
  case None
  with assms show ?thesis by (simp add: fuseSeason_def)
next
  case (Some r)
  show ?thesis
  proof (cases "seasonMeta leagueHistoryData histData")
    case None
    with Some assms show ?thesis by (simp add: fuseSeason_def)
  next
    case meta: (Some m)
    have d: "p \<in> dom (fst (foldl (applyDraft host leagueDetails scan userId m) st ds))" for ds
      by (rule foldl_invariant[where P = "\<lambda>t. p \<in> dom (fst t)"]) (simp_all add: assms applyDraft_keeps)
    have "p \<in> dom (foldl (applyTransaction host roster r) a ts)" if "p \<in> dom a" for a ts
      by (rule foldl_invariant[where P = "\<lambda>t. p \<in> dom t"]) (simp_all add: that applyTransaction_keeps)
    with d Some meta show ?thesis
      by (simp add: fuseSeason_def Let_def)
  qed
qed

lemma fuseLineage_covers_roster:
  assumes "p \<in> set (players roster)"
  shows "p \<in> dom (fst (fuseLineage host leagueDetails scan leagueHistoryData userId roster seasons))"
proof -
  have "p \<in> dom (fst (initialAcquisitions roster, 0::nat))"
    using assms by (simp add: dom_def initialAcquisitions_apply)
  then show ?thesis
    unfolding fuseLineage_def
    by (rule foldl_invariant[where P = "\<lambda>t. p \<in> dom (fst t)"]) (simp add: fuseSeason_keeps)
qed

lemma previousOwner_known:
  "p \<in> dom acquisitions \<Longrightarrow> knownRecord (previousOwner acquisitions) p"
  by (auto simp add: knownRecord_def previousOwner_def)

lemma previousOwner_dom: "dom (previousOwner acquisitions) = dom acquisitions"
  by (auto simp add: previousOwner_def dom_def split: option.splits if_splits)

lemma getPlayerAcquisitions_covers_roster:
  assumes "p \<in> set (players roster)"
  shows "p \<in> dom (getPlayerAcquisitions host None leagueDetails leagueHistoryData up userId roster)"
proof (cases "leagueHistoryData = []")
  case True
  with assms show ?thesis
    by (simp add: getPlayerAcquisitions_def dom_def initialAcquisitions_apply)
next
  case False
  with assms show ?thesis
    by (simp add: getPlayerAcquisitions_def Let_def previousOwner_dom fuseLineage_covers_roster)
qed

lemma fallbackApplies_coverage:
  "fallbackApplies scan n =
     (\<not> (foundUserInLineage scan
          \<and> truthyString (userDesignatedStartupDraftIdInEarliestSeason scan)
          \<and> 0 < n
          \<and> \<not> draftsExistBeforeUserJoinedThisLineage scan))"
  by (auto simp add: fallbackApplies_def)

lemma foldl_frame:
  assumes "\<And>t x. x \<in> set xs \<Longrightarrow> g (f t x) = g t"
  shows "g (foldl f s xs) = g s"
  using assms by (induction xs arbitrary: s) simp_all

lemma set_insertDraft: "set (insertDraft x ys) = insert x (set ys)"
  by (induction ys) auto

lemma set_sortDrafts: "set (sortDrafts ds) = set ds"
proof -
  have "set (foldl (\<lambda>sorted d. insertDraft d sorted) acc ds) = set acc \<union> set ds" for acc
    by (induction ds arbitrary: acc) (auto simp add: set_insertDraft)
  then show ?thesis
    by (simp add: sortDrafts_def)
qed

lemma applyPick_other:
  "player_id pick \<noteq> p \<Longrightarrow>
     fst (applyPick host leagueDetails draftType historicalSeasonMeta st pick) p = fst st p"
  by (simp add: applyPick_def)

lemma applyDraft_other:
  assumes "\<not> list_ex (\<lambda>q. picked_by q = userId \<and> player_id q = p) (picks draftData)"
  shows "fst (applyDraft host leagueDetails scan userId historicalSeasonMeta st draftData) p = fst st p"
proof -
  have "fst (foldl (applyPick host leagueDetails ty historicalSeasonMeta) st
              (filter (\<lambda>q. picked_by q = userId) (picks draftData))) p = fst st p" for ty
    by (rule foldl_frame[where g = "\<lambda>t. fst t p"])
       (use assms in \<open>auto simp add: list_ex_iff intro!: applyPick_other\<close>)
  then show ?thesis
    by (simp add: applyDraft_def Let_def)
qed

lemma applyAdd_other:
  "q \<noteq> p \<Longrightarrow> applyAdd host roster transaction acquisitions q p = acquisitions p"
  by (simp add: applyAdd_def)

lemma applyTransaction_other:
  assumes "case adds transaction of None \<Rightarrow> True | Some added \<Rightarrow> p \<notin> set (map fst added)"
  shows "applyTransaction host roster userRosterThisSeason acquisitions transaction p = acquisitions p"
proof (cases "adds transaction")
  case None
  then show ?thesis by (simp add: applyTransaction_def)
next
  case (Some added)
  have "foldl (applyAdd host roster transaction) acquisitions (map fst added) p = acquisitions p"
    by (rule foldl_frame[where g = "\<lambda>t. t p"])
       (use assms Some in \<open>auto intro!: applyAdd_other\<close>)
  with Some show ?thesis
    by (simp add: applyTransaction_def)
qed

lemma fuseSeason_other:
  assumes "\<not> namedByEvent userId p histData"
  shows "fst (fuseSeason host leagueDetails scan leagueHistoryData userId roster st histData) p = fst st p"
proof (cases "data_roster histData")
  case None
  then show ?thesis by (simp add: fuseSeason_def)
next
  case (Some r)
  with assms have nd: "\<not> list_ex (\<lambda>q. picked_by q = userId \<and> player_id q = p) (picks x)"
    if "x \<in> set (data_drafts histData)" for x
    using that unfolding namedByEvent_def list_ex_iff by blast
  have nt: "case adds x of None \<Rightarrow> True | Some added \<Rightarrow> p \<notin> set (map fst added)"
    if "x \<in> set (data_transactions histData)" for x
  proof -
    from Some assms that
    have "\<not> (case adds x of None \<Rightarrow> False | Some added \<Rightarrow> p \<in> set (map fst added))"
      unfolding namedByEvent_def list_ex_iff by blast
    then show ?thesis
      by (cases "adds x") simp_all
  qed
  show ?thesis
  proof (cases "seasonMeta leagueHistoryData histData")
    case None
    with Some show ?thesis by (simp add: fuseSeason_def)
  next
    case meta: (Some m)
    have d: "fst (foldl (applyDraft host leagueDetails scan userId m) st
                   (sortDrafts (data_drafts histData))) p = fst st p"
    proof (rule foldl_frame[where g = "\<lambda>t. fst t p"])
      fix t x
      assume "x \<in> set (sortDrafts (data_drafts histData))"
      then have "x \<in> set (data_drafts histData)"
        by (simp add: set_sortDrafts)
      then have "\<not> list_ex (\<lambda>q. picked_by q = userId \<and> player_id q = p) (picks x)"
        by (rule nd)
      then show "fst (applyDraft host leagueDetails scan userId m t x) p = fst t p"
        by (rule applyDraft_other)
    qed
    have t: "foldl (applyTransaction host roster r) a (data_transactions histData) p = a p" for a
    proof (rule foldl_frame[where g = "\<lambda>t. t p"])
      fix t x
      assume "x \<in> set (data_transactions histData)"
      then have "case adds x of None \<Rightarrow> True | Some added \<Rightarrow> p \<notin> set (map fst added)"
        by (rule nt)
      then show "applyTransaction host roster r t x p = t p"
        by (rule applyTransaction_other)
    qed
    from d t Some meta show ?thesis
      by (simp add: fuseSeason_def Let_def)
  qed
qed

lemma fuseLineage_unnamed:
  assumes "\<not> list_ex (namedByEvent userId p) seasons"
  shows "fst (fuseLineage host leagueDetails scan leagueHistoryData userId roster seasons) p
           = initialAcquisitions roster p"
proof -
  have "fst (foldl (fuseSeason host leagueDetails scan leagueHistoryData userId roster)
               (initialAcquisitions roster, 0) seasons) p
          = fst (initialAcquisitions roster, 0::nat) p"
    by (rule foldl_frame[where g = "\<lambda>t. fst t p"])
       (use assms in \<open>auto simp add: list_ex_iff intro!: fuseSeason_other\<close>)
  then show ?thesis
    by (simp add: fuseLineage_def)
qed

text \<open>
  C1, as the code has it. On a cache miss every player of the roster has a record in
  the result. When the lineage is not empty and one of the four conditions of the
  final reclassification holds, every record that the fusion left \<^verbatim>\<open>Unknown\<close> becomes
  \<^verbatim>\<open>Previous Owner\<close> with the detail \<^verbatim>\<open>On roster when user took over team\<close>, every other
  record stays as fused, and so no roster player's record is \<^verbatim>\<open>Unknown\<close>. When none of
  the four conditions holds the result is the fused map unchanged. A roster player
  whom no event of the lineage names is \<^verbatim>\<open>Unknown\<close> after the fusion, hence
  \<^verbatim>\<open>Previous Owner\<close> in the result under the four conditions and still \<^verbatim>\<open>Unknown\<close>
  otherwise. The four conditions cover every outcome of the scan and the fusion but
  one: the participant was found, a startup draft was designated, at least one startup
  pick was counted, and no draft preceded the participant's earliest season.
\<close>

theorem fallback_leaves_no_unknown:
  assumes "playerId \<in> set (players roster)"
  shows "(\<exists>current. getPlayerAcquisitions host None leagueDetails leagueHistoryData up userId roster playerId = Some current)
         \<and> (leagueHistoryData \<noteq> []
              \<and> fallbackApplies (scanOf up userId leagueHistoryData) (snd (fusedOf host leagueDetails leagueHistoryData up userId roster))
              \<longrightarrow> (\<forall>q. getPlayerAcquisitions host None leagueDetails leagueHistoryData up userId roster q =
                         (case fst (fusedOf host leagueDetails leagueHistoryData up userId roster) q of
                            None \<Rightarrow> None
                          | Some current \<Rightarrow>
                              if acq_type current = ''Unknown''
                              then Some \<lparr>acq_type = ''Previous Owner'',
                                         details = ''On roster when user took over team'',
                                         timestamp = Some 0\<rparr>
                              else Some current))
                  \<and> knownRecord ((getPlayerAcquisitions host None leagueDetails leagueHistoryData up userId roster)) playerId)
         \<and> (leagueHistoryData \<noteq> []
              \<and> \<not> fallbackApplies (scanOf up userId leagueHistoryData) (snd (fusedOf host leagueDetails leagueHistoryData up userId roster))
              \<longrightarrow> (\<forall>q. getPlayerAcquisitions host None leagueDetails leagueHistoryData up userId roster q = fst (fusedOf host leagueDetails leagueHistoryData up userId roster) q))
         \<and> (\<not> list_ex (namedByEvent userId playerId)
                   (allHistoricalSeasonData up userId leagueHistoryData)
              \<longrightarrow> fst (fusedOf host leagueDetails leagueHistoryData up userId roster) playerId
                    = Some \<lparr>acq_type = ''Unknown'', details = [], timestamp = Some 0\<rparr>
                  \<and> (leagueHistoryData \<noteq> []
                       \<longrightarrow> getPlayerAcquisitions host None leagueDetails leagueHistoryData up userId roster playerId =
                             (if fallbackApplies (scanOf up userId leagueHistoryData) (snd (fusedOf host leagueDetails leagueHistoryData up userId roster))
                              then Some \<lparr>acq_type = ''Previous Owner'',
                                         details = ''On roster when user took over team'',
                                         timestamp = Some 0\<rparr>
                              else Some \<lparr>acq_type = ''Unknown'', details = [],
                                         timestamp = Some 0\<rparr>)))
         \<and> fallbackApplies scan n =
             (\<not> (foundUserInLineage scan
                  \<and> truthyString (userDesignatedStartupDraftIdInEarliestSeason scan)
                  \<and> 0 < n
                  \<and> \<not> draftsExistBeforeUserJoinedThisLineage scan))"
proof -
  let ?R = "(getPlayerAcquisitions host None leagueDetails leagueHistoryData up userId roster)"
  let ?F = "fusedOf host leagueDetails leagueHistoryData up userId roster"
  let ?f = "fallbackApplies (scanOf up userId leagueHistoryData) (snd ?F)"
  have A: "\<exists>current. ?R playerId = Some current"
    using getPlayerAcquisitions_covers_roster[OF assms, of host leagueDetails leagueHistoryData up userId]
    by (auto simp add: dom_def)
  have yes: "?R = previousOwner (fst ?F)" if "leagueHistoryData \<noteq> []" and "?f"
    using that by (simp add: getPlayerAcquisitions_def Let_def scanOf_def fusedOf_def)
  have no: "?R = fst ?F" if "leagueHistoryData \<noteq> []" and "\<not> ?f"
    using that by (simp add: getPlayerAcquisitions_def Let_def scanOf_def fusedOf_def)
  have dom: "playerId \<in> dom (fst ?F)"
    unfolding fusedOf_def using assms by (rule fuseLineage_covers_roster)
  have B: "leagueHistoryData \<noteq> [] \<and> ?f
              \<longrightarrow> (\<forall>q. ?R q =
                         (case fst ?F q of
                            None \<Rightarrow> None
                          | Some current \<Rightarrow>
                              if acq_type current = ''Unknown''
                              then Some \<lparr>acq_type = ''Previous Owner'',
                                         details = ''On roster when user took over team'',
                                         timestamp = Some 0\<rparr>
                              else Some current))
                  \<and> knownRecord ?R playerId"
  proof (intro impI conjI allI)
    fix q
    assume h: "leagueHistoryData \<noteq> [] \<and> ?f"
    then have e: "?R = previousOwner (fst ?F)"
      using yes by blast
    show "?R q =
            (case fst ?F q of
               None \<Rightarrow> None
             | Some current \<Rightarrow>
                 if acq_type current = ''Unknown''
                 then Some \<lparr>acq_type = ''Previous Owner'',
                            details = ''On roster when user took over team'',
                            timestamp = Some 0\<rparr>
                 else Some current)"
      unfolding e by (simp add: previousOwner_def)
  next
    assume h: "leagueHistoryData \<noteq> [] \<and> ?f"
    then have e: "?R = previousOwner (fst ?F)"
      using yes by blast
    show "knownRecord ?R playerId"
      unfolding e using dom by (rule previousOwner_known)
  qed
  have C: "leagueHistoryData \<noteq> [] \<and> \<not> ?f \<longrightarrow> (\<forall>q. ?R q = fst ?F q)"
    using no by simp
  have un: "fst ?F playerId = Some \<lparr>acq_type = ''Unknown'', details = [], timestamp = Some 0\<rparr>"
    if "\<not> list_ex (namedByEvent userId playerId) (allHistoricalSeasonData up userId leagueHistoryData)"
    using fuseLineage_unnamed[OF that] assms
    by (simp add: fusedOf_def initialAcquisitions_apply)
  have D: "\<not> list_ex (namedByEvent userId playerId)
                   (allHistoricalSeasonData up userId leagueHistoryData)
              \<longrightarrow> fst ?F playerId
                    = Some \<lparr>acq_type = ''Unknown'', details = [], timestamp = Some 0\<rparr>
                  \<and> (leagueHistoryData \<noteq> []
                       \<longrightarrow> ?R playerId =
                             (if ?f
                              then Some \<lparr>acq_type = ''Previous Owner'',
                                         details = ''On roster when user took over team'',
                                         timestamp = Some 0\<rparr>
                              else Some \<lparr>acq_type = ''Unknown'', details = [],
                                         timestamp = Some 0\<rparr>))"
  proof (intro impI conjI)
    assume u: "\<not> list_ex (namedByEvent userId playerId)
                   (allHistoricalSeasonData up userId leagueHistoryData)"
    then show f: "fst ?F playerId
                    = Some \<lparr>acq_type = ''Unknown'', details = [], timestamp = Some 0\<rparr>"
      by (rule un)
    assume h: "leagueHistoryData \<noteq> []"
    show "?R playerId =
            (if ?f
             then Some \<lparr>acq_type = ''Previous Owner'',
                        details = ''On roster when user took over team'',
                        timestamp = Some 0\<rparr>
             else Some \<lparr>acq_type = ''Unknown'', details = [], timestamp = Some 0\<rparr>)"
    proof (cases ?f)
      case True
      with h have "?R = previousOwner (fst ?F)"
        by (rule yes)
      with f True show ?thesis
        by (simp add: previousOwner_def)
    next
      case False
      with h have "?R = fst ?F"
        by (rule no)
      with f False show ?thesis
        by simp
    qed
  qed
  from A B C D fallbackApplies_coverage[of scan n] show ?thesis
    by blast
qed

theorem fallback_leaves_no_unknown_witness:
  "''P1'' \<in> set (players sampleRoster)
   \<and> twoSeasons \<noteq> []
   \<and> fallbackApplies (scanOf lateJoinUpstream ''U1'' twoSeasons) (snd (fusedOf sampleHost dynastyLeague twoSeasons lateJoinUpstream ''U1'' sampleRoster))
   \<and> \<not> list_ex (namedByEvent ''U1'' ''P1'')
          (allHistoricalSeasonData lateJoinUpstream ''U1'' twoSeasons)
   \<and> fst (fusedOf sampleHost dynastyLeague twoSeasons lateJoinUpstream ''U1'' sampleRoster) ''P1'' = Some \<lparr>acq_type = ''Unknown'', details = [], timestamp = Some 0\<rparr>
   \<and> getPlayerAcquisitions sampleHost None dynastyLeague twoSeasons lateJoinUpstream ''U1'' sampleRoster ''P1''
     = Some \<lparr>acq_type = ''Previous Owner'', details = ''On roster when user took over team'',
             timestamp = Some 0\<rparr>
   \<and> fst (fusedOf sampleHost dynastyLeague twoSeasons lateJoinUpstream ''U1'' sampleRoster) ''P2''
     = Some \<lparr>acq_type = ''Rookie Draft'', details = ''2024 1.05'', timestamp = Some 1717200000000\<rparr>
   \<and> getPlayerAcquisitions sampleHost None dynastyLeague twoSeasons lateJoinUpstream ''U1'' sampleRoster ''P2''
     = Some \<lparr>acq_type = ''Rookie Draft'', details = ''2024 1.05'', timestamp = Some 1717200000000\<rparr>
   \<and> knownRecord (getPlayerAcquisitions sampleHost None dynastyLeague twoSeasons lateJoinUpstream ''U1'' sampleRoster) ''P1''
   \<and> oneSeason \<noteq> []
   \<and> \<not> fallbackApplies (scanOf sampleUpstream ''U1'' oneSeason) (snd (fusedOf sampleHost dynastyLeague oneSeason sampleUpstream ''U1'' sampleRoster))
   \<and> fst (fusedOf sampleHost dynastyLeague oneSeason sampleUpstream ''U1'' sampleRoster) ''P1''
     = Some \<lparr>acq_type = ''Startup Draft'', details = ''1.03'', timestamp = Some 1685577600000\<rparr>
   \<and> getPlayerAcquisitions sampleHost None dynastyLeague oneSeason sampleUpstream ''U1'' sampleRoster ''P1''
     = Some \<lparr>acq_type = ''Startup Draft'', details = ''1.03'', timestamp = Some 1685577600000\<rparr>"
proof -
  have p: "''P1'' \<in> set (players sampleRoster)"
    by (simp add: sampleRoster_def)
  have h: "twoSeasons \<noteq> []"
    by (simp add: twoSeasons_def)
  have f: "fallbackApplies (scanOf lateJoinUpstream ''U1'' twoSeasons) (snd (fusedOf sampleHost dynastyLeague twoSeasons lateJoinUpstream ''U1'' sampleRoster))"
    by code_simp
  have u: "\<not> list_ex (namedByEvent ''U1'' ''P1'')
              (allHistoricalSeasonData lateJoinUpstream ''U1'' twoSeasons)"
    by code_simp
  have k: "fst (fusedOf sampleHost dynastyLeague twoSeasons lateJoinUpstream ''U1'' sampleRoster) ''P2''
     = Some \<lparr>acq_type = ''Rookie Draft'', details = ''2024 1.05'', timestamp = Some 1717200000000\<rparr>"
    by code_simp
  have h1: "oneSeason \<noteq> []"
    by (simp add: oneSeason_def)
  have f1: "\<not> fallbackApplies (scanOf sampleUpstream ''U1'' oneSeason) (snd (fusedOf sampleHost dynastyLeague oneSeason sampleUpstream ''U1'' sampleRoster))"
    by code_simp
  have k1: "fst (fusedOf sampleHost dynastyLeague oneSeason sampleUpstream ''U1'' sampleRoster) ''P1''
     = Some \<lparr>acq_type = ''Startup Draft'', details = ''1.03'', timestamp = Some 1685577600000\<rparr>"
    by code_simp
  note late = fallback_leaves_no_unknown
         [where playerId = "''P1''" and roster = sampleRoster and host = sampleHost
            and leagueDetails = dynastyLeague and leagueHistoryData = twoSeasons
            and up = lateJoinUpstream and userId = "''U1''"
            and scan = "scanOf lateJoinUpstream ''U1'' twoSeasons" and n = 0, OF p]
  note one = fallback_leaves_no_unknown
         [where playerId = "''P1''" and roster = sampleRoster and host = sampleHost
            and leagueDetails = dynastyLeague and leagueHistoryData = oneSeason
            and up = sampleUpstream and userId = "''U1''"
            and scan = "scanOf sampleUpstream ''U1'' oneSeason" and n = 0, OF p]
  from late u have a1: "fst (fusedOf sampleHost dynastyLeague twoSeasons lateJoinUpstream ''U1'' sampleRoster) ''P1'' = Some \<lparr>acq_type = ''Unknown'', details = [], timestamp = Some 0\<rparr>"
    by blast
  from late u h f have a2: "getPlayerAcquisitions sampleHost None dynastyLeague twoSeasons lateJoinUpstream ''U1'' sampleRoster ''P1''
     = Some \<lparr>acq_type = ''Previous Owner'', details = ''On roster when user took over team'',
             timestamp = Some 0\<rparr>"
    by simp
  from late h f have "getPlayerAcquisitions sampleHost None dynastyLeague twoSeasons lateJoinUpstream ''U1'' sampleRoster ''P2''
     = (case fst (fusedOf sampleHost dynastyLeague twoSeasons lateJoinUpstream ''U1'' sampleRoster) ''P2'' of
          None \<Rightarrow> None
        | Some current \<Rightarrow>
            if acq_type current = ''Unknown''
            then Some \<lparr>acq_type = ''Previous Owner'', details = ''On roster when user took over team'',
             timestamp = Some 0\<rparr>
            else Some current)"
    by blast
  with k have a3: "getPlayerAcquisitions sampleHost None dynastyLeague twoSeasons lateJoinUpstream ''U1'' sampleRoster ''P2''
     = Some \<lparr>acq_type = ''Rookie Draft'', details = ''2024 1.05'', timestamp = Some 1717200000000\<rparr>"
    by simp
  from late h f have a4: "knownRecord (getPlayerAcquisitions sampleHost None dynastyLeague twoSeasons lateJoinUpstream ''U1'' sampleRoster) ''P1''"
    by blast
  from one h1 f1 have "getPlayerAcquisitions sampleHost None dynastyLeague oneSeason sampleUpstream ''U1'' sampleRoster ''P1'' = fst (fusedOf sampleHost dynastyLeague oneSeason sampleUpstream ''U1'' sampleRoster) ''P1''"
    by blast
  with k1 have a5: "getPlayerAcquisitions sampleHost None dynastyLeague oneSeason sampleUpstream ''U1'' sampleRoster ''P1''
     = Some \<lparr>acq_type = ''Startup Draft'', details = ''1.03'', timestamp = Some 1685577600000\<rparr>"
    by simp
  from p h f u a1 a2 k a3 a4 h1 f1 k1 a5 show ?thesis
    by blast
qed

text \<open>
  In the outcome that the four conditions leave out, a roster player whom no event
  names keeps the record \<^verbatim>\<open>Unknown\<close>: \<open>U1\<close> drafted \<open>P1\<close> in the startup draft, and
  nothing in the lineage mentions \<open>P2\<close>.
\<close>

theorem fallback_unknown_counterexample:
  "''P2'' \<in> set (players sampleRoster)
   \<and> oneSeason \<noteq> []
   \<and> getPlayerAcquisitions sampleHost None dynastyLeague oneSeason sampleUpstream ''U1'' sampleRoster
        ''P2''
     = Some \<lparr>acq_type = ''Unknown'', details = [], timestamp = Some 0\<rparr>"
  by code_simp

text \<open>
  C2 does not hold of the code. A draft pick is applied to any player the participant
  drafted: for a player with no record the guard of the pick is true, and the loop has
  no test of roster membership such as the transaction loop has. \<open>P9\<close>, drafted by \<open>U1\<close>
  and no longer on the roster, is a key of the result.
\<close>

theorem draft_pick_adds_key_outside_roster:
  "''P9'' \<notin> set (players sampleRoster)
   \<and> getPlayerAcquisitions sampleHost None dynastyLeague oneSeason sampleUpstream ''U1'' sampleRoster
        ''P9''
     = Some \<lparr>acq_type = ''Startup Draft'', details = ''2.10'', timestamp = Some 1685577600000\<rparr>"
  by code_simp

end
